theory Spec2Isabelle
  imports Complex_Main
begin

section \<open>Data model of \<^verbatim>\<open>run_bc.py\<close>\<close>

text \<open>
  Python floats. A finite double is read as the real number it denotes (rounding and
  overflow to infinity are outside the model); \<open>NaN\<close> is kept as a value of its own,
  because the program produces it from well-formed input: \<^verbatim>\<open>np.mean([])\<close> and
  \<^verbatim>\<open>np.std([])\<close> are nan, which is what an evaluation over zero episodes computes.
\<close>

datatype pyfloat = Fin real | NaN

text \<open>\<^verbatim>\<open>a + b\<close> on floats: nan propagates.\<close>

fun add_f :: "pyfloat \<Rightarrow> pyfloat \<Rightarrow> pyfloat" where
  "add_f (Fin a) (Fin b) = Fin (a + b)"
| "add_f _ _ = NaN"

text \<open>\<^verbatim>\<open>a >= b\<close> on floats: every comparison with nan is False.\<close>

fun ge_f :: "pyfloat \<Rightarrow> pyfloat \<Rightarrow> bool" where
  "ge_f (Fin a) (Fin b) = (b \<le> a)"
| "ge_f _ _ = False"

text \<open>The numbers of a list of floats, when none of them is nan.\<close>

fun finite_vals :: "pyfloat list \<Rightarrow> real list option" where
  "finite_vals [] = Some []"
| "finite_vals (Fin r # xs) = map_option ((#) r) (finite_vals xs)"
| "finite_vals (NaN # xs) = None"

text \<open>
  \<^verbatim>\<open>np.mean(xs)\<close>: the arithmetic mean; nan for the empty list and for a list that holds
  a nan.
\<close>

definition np_mean :: "pyfloat list \<Rightarrow> pyfloat" where
  "np_mean xs =
     (case finite_vals xs of
        None \<Rightarrow> NaN
      | Some rs \<Rightarrow> if rs = [] then NaN else Fin (sum_list rs / real (length rs)))"

text \<open>
  \<^verbatim>\<open>np.std(xs)\<close> with numpy's default \<^verbatim>\<open>ddof=0\<close>:
  \<^verbatim>\<open>sqrt(mean(abs(x - x.mean())**2))\<close>; nan where the mean is.
\<close>

definition np_std :: "pyfloat list \<Rightarrow> pyfloat" where
  "np_std xs =
     (case finite_vals xs of
        None \<Rightarrow> NaN
      | Some rs \<Rightarrow>
          if rs = [] then NaN
          else let m = sum_list rs / real (length rs)
               in Fin (sqrt (sum_list (map (\<lambda>x. \<bar>x - m\<bar> ^ 2) rs) / real (length rs))))"

text \<open>
  The command-line arguments that \<^verbatim>\<open>train_agent\<close> and \<^verbatim>\<open>eval_policy\<close> read
  (\<^verbatim>\<open>type=int\<close> arguments are Python's unbounded integers). The remaining arguments
  are only handed to the agents' constructors.
\<close>

record args =
  algo :: string
  env_name :: string
  seed :: int
  num_epochs :: int
  num_steps_per_epoch :: int
  eval_freq :: int
  eval_episodes :: int
  batch_size :: int
  save_best_model :: bool

text \<open>The agent classes that the \<^verbatim>\<open>if\<close>/\<^verbatim>\<open>elif\<close> chain of \<^verbatim>\<open>train_agent\<close> imports.\<close>

datatype agent_class = BC | BC_MLE | BC_CVAE | BC_KL | BC_MMD | BC_W | BC_GAN | BC_GAN2

text \<open>
  Lines 23 to 101: the chain has no \<^verbatim>\<open>else\<close> branch, so for any other name the local
  variable \<^verbatim>\<open>agent\<close> stays unbound (\<open>None\<close>).
\<close>

definition select_agent :: "string \<Rightarrow> agent_class option" where
  "select_agent a =
     (if a = ''bc'' then Some BC
      else if a = ''bc_mle'' then Some BC_MLE
      else if a = ''bc_cvae'' then Some BC_CVAE
      else if a = ''bc_kl'' then Some BC_KL
      else if a = ''bc_mmd'' then Some BC_MMD
      else if a = ''bc_w'' then Some BC_W
      else if a = ''bc_gan'' then Some BC_GAN
      else if a = ''bc_gan2'' then Some BC_GAN2
      else None)"

text \<open>
  The entry \<^verbatim>\<open>[eval_res, eval_res_std, eval_norm_res, eval_norm_res_std]\<close> appended to
  \<^verbatim>\<open>evaluations\<close>, and the dictionary \<^verbatim>\<open>best_res\<close> written to \<^verbatim>\<open>best_score.txt\<close>.
\<close>

type_synonym eval_record = "pyfloat \<times> pyfloat \<times> pyfloat \<times> pyfloat"

record best_res =
  epoch :: int
  best_normalized_score_avg :: pyfloat
  best_normalized_score_std :: pyfloat
  best_raw_score_avg :: pyfloat
  best_raw_score_std :: pyfloat

text \<open>Python exceptions that the modelled code itself can raise.\<close>

datatype error = UnboundLocalError | ZeroDivisionError

text \<open>
  The calls that leave the program, in the order in which they happen: the training
  burst \<^verbatim>\<open>agent.train(.., iterations, batch_size)\<close>, the logged \<^verbatim>\<open>Trained Epochs\<close>,
  \<^verbatim>\<open>gym.make\<close>, \<^verbatim>\<open>eval_env.seed\<close>, \<^verbatim>\<open>np.save\<close> of the history,
  \<^verbatim>\<open>agent.save_model\<close> and the write of \<^verbatim>\<open>best_score.txt\<close>.
\<close>

datatype event =
    Agent_Train int int
  | Trained_Epochs int
  | Gym_Make string
  | Env_Seed int
  | Np_Save "eval_record list"
  | Save_Model
  | Write_Best best_res

text \<open>
  The collaborators that are not part of the file: the agent (\<open>'g\<close> is its state,
  parameters and random generator included), and the gym environment (\<open>'e\<close> is an
  environment instance, \<open>'o\<close> an observation, \<open>'a\<close> an action). \<^verbatim>\<open>gym.make\<close> is
  total here: \<^verbatim>\<open>__main__\<close> has already made an environment of the same name before
  \<^verbatim>\<open>train_agent\<close> runs.
\<close>

record ('g, 'e, 'o, 'a) ops =
  new_agent :: "agent_class \<Rightarrow> 'g"
  agent_train :: "int \<Rightarrow> int \<Rightarrow> 'g \<Rightarrow> 'g"
  sample_action :: "'o \<Rightarrow> 'g \<Rightarrow> 'a \<times> 'g"
  gym_make :: "string \<Rightarrow> 'e"
  env_seed :: "int \<Rightarrow> 'e \<Rightarrow> 'e"
  env_reset :: "'e \<Rightarrow> 'o \<times> 'e"
  env_step :: "'a \<Rightarrow> 'e \<Rightarrow> ('o \<times> pyfloat \<times> bool) \<times> 'e"
  get_normalized_score :: "'e \<Rightarrow> pyfloat \<Rightarrow> pyfloat"

section \<open>\<^verbatim>\<open>eval_policy\<close>\<close>

text \<open>
  Lines 146 to 149, one episode after \<^verbatim>\<open>reset\<close>: \<^verbatim>\<open>done\<close> starts False, so the body
  runs at least once, and the loop ends after the step that reports \<^verbatim>\<open>done\<close>. An
  episode that never reports it does not return: the value is \<open>None\<close>.
\<close>

partial_function (option) run_episode ::
  "('g, 'e, 'o, 'a) ops \<Rightarrow> 'o \<Rightarrow> 'e \<Rightarrow> 'g \<Rightarrow> pyfloat \<Rightarrow> (pyfloat \<times> 'e \<times> 'g) option"
where
  "run_episode S state env policy traj_return =
     (case sample_action S state policy of (action, policy') \<Rightarrow>
       (case env_step S action env of ((state', reward, done), env') \<Rightarrow>
          if done then Some (add_f traj_return reward, env', policy')
          else run_episode S state' env' policy' (add_f traj_return reward)))"

text \<open>Lines 143 to 150: \<^verbatim>\<open>for _ in range(eval_episodes)\<close>, appending each return.\<close>

fun run_episodes ::
  "('g, 'e, 'o, 'a) ops \<Rightarrow> nat \<Rightarrow> 'e \<Rightarrow> 'g \<Rightarrow> pyfloat list \<Rightarrow> (pyfloat list \<times> 'e \<times> 'g) option"
where
  "run_episodes S 0 env policy scores = Some (scores, env, policy)"
| "run_episodes S (Suc n) env policy scores =
     (case env_reset S env of (state, env1) \<Rightarrow>
       (case run_episode S state env1 policy (Fin 0) of
          None \<Rightarrow> None
        | Some (traj_return, env2, policy2) \<Rightarrow>
            run_episodes S n env2 policy2 (scores @ [traj_return])))"

text \<open>Lines 152 to 160: the four statistics returned for a list of episode returns.\<close>

definition aggregate :: "(pyfloat \<Rightarrow> pyfloat) \<Rightarrow> pyfloat list \<Rightarrow> eval_record" where
  "aggregate normalizer scores =
     (let avg_reward = np_mean scores;
          std_reward = np_std scores;
          normalized_scores = map normalizer scores;
          avg_norm_score = normalizer avg_reward;
          std_norm_score = np_std normalized_scores
      in (avg_reward, std_reward, avg_norm_score, std_norm_score))"

text \<open>
  \<^verbatim>\<open>eval_policy(policy, env_name, seed, eval_episodes)\<close>: the result, the agent after
  the rollouts and the events of the call. \<^verbatim>\<open>range(n)\<close> is empty for \<open>n \<le> 0\<close>.
\<close>

definition eval_policy ::
  "('g, 'e, 'o, 'a) ops \<Rightarrow> 'g \<Rightarrow> string \<Rightarrow> int \<Rightarrow> int \<Rightarrow> (eval_record \<times> 'g \<times> event list) option"
where
  "eval_policy S policy name sd episodes =
     (let eval_env = env_seed S (sd + 100) (gym_make S name)
      in case run_episodes S (nat episodes) eval_env policy [] of
           None \<Rightarrow> None
         | Some (scores, env', policy') \<Rightarrow>
             Some (aggregate (get_normalized_score S env') scores, policy',
                   [Gym_Make name, Env_Seed (sd + 100)]))"

section \<open>\<^verbatim>\<open>train_agent\<close>\<close>

text \<open>
  The local variables of \<^verbatim>\<open>train_agent\<close> (\<open>agent = None\<close>: unbound), the files of the
  output directory (\<^verbatim>\<open>eval.npy\<close>, \<^verbatim>\<open>best_score.txt\<close>, the checkpoint of
  \<^verbatim>\<open>save_model\<close>) and the events so far.
\<close>

record 'g run_state =
  agent :: "'g option"
  evaluations :: "eval_record list"
  training_iters :: int
  best_score :: pyfloat
  eval_file :: "eval_record list option"
  best_score_file :: "best_res option"
  model_file :: "'g option"
  trace :: "event list"

text \<open>How a call ends when it ends: it returns, or an exception leaves it.\<close>

datatype 'g outcome = Returned "'g run_state" | Raised error "'g run_state"

fun final_state :: "'g outcome \<Rightarrow> 'g run_state" where
  "final_state (Returned st) = st"
| "final_state (Raised e st) = st"

text \<open>Lines 129 to 131.\<close>

definition make_best_res :: "int \<Rightarrow> eval_record \<Rightarrow> best_res" where
  "make_best_res curr_epoch r =
     (case r of (eval_res, eval_res_std, eval_norm_res, eval_norm_res_std) \<Rightarrow>
        \<lparr>epoch = curr_epoch,
         best_normalized_score_avg = eval_norm_res,
         best_normalized_score_std = eval_norm_res_std,
         best_raw_score_avg = eval_res,
         best_raw_score_std = eval_res_std\<rparr>)"

text \<open>Lines 126 to 133: record and save the best model.\<close>

definition select_best :: "bool \<Rightarrow> int \<Rightarrow> eval_record \<Rightarrow> 'g run_state \<Rightarrow> 'g run_state" where
  "select_best save curr_epoch r st =
     (case r of (eval_res, eval_res_std, eval_norm_res, eval_norm_res_std) \<Rightarrow>
        if ge_f eval_norm_res (best_score st) then
          st\<lparr>best_score := eval_norm_res,
             best_score_file := Some (make_best_res curr_epoch r),
             model_file := (if save then agent st else model_file st),
             trace := trace st @ (if save then [Save_Model] else [])
                        @ [Write_Best (make_best_res curr_epoch r)]\<rparr>
        else st)"

text \<open>
  Lines 108 to 133, one pass through the body of the \<^verbatim>\<open>while\<close> loop. \<open>None\<close>: the
  evaluation does not return.
\<close>

definition cycle :: "('g, 'e, 'o, 'a) ops \<Rightarrow> args \<Rightarrow> 'g run_state \<Rightarrow> 'g outcome option" where
  "cycle S A st =
     (let iterations = eval_freq A * num_steps_per_epoch A
      in case agent st of
           None \<Rightarrow> Some (Raised UnboundLocalError st)
         | Some g \<Rightarrow>
            (let g1 = agent_train S iterations (batch_size A) g;
                 st1 = st\<lparr>agent := Some g1,
                          training_iters := training_iters st + iterations,
                          trace := trace st @ [Agent_Train iterations (batch_size A)]\<rparr>
             in if num_steps_per_epoch A = 0 then Some (Raised ZeroDivisionError st1)
                else
                 (let curr_epoch = training_iters st1 div num_steps_per_epoch A
                  in case eval_policy S g1 (env_name A) (seed A) (eval_episodes A) of
                       None \<Rightarrow> None
                     | Some (r, g2, evs) \<Rightarrow>
                        (let st2 = st1\<lparr>agent := Some g2,
                                      evaluations := evaluations st1 @ [r],
                                      trace := trace st1 @ [Trained_Epochs curr_epoch] @ evs\<rparr>;
                             st3 = st2\<lparr>eval_file := Some (evaluations st2),
                                      trace := trace st2 @ [Np_Save (evaluations st2)]\<rparr>
                         in Some (Returned
                              (select_best (save_best_model A) curr_epoch r st3))))))"

text \<open>Line 107: the \<^verbatim>\<open>while\<close> loop. \<open>None\<close>: the loop does not end.\<close>

partial_function (option) train_loop ::
  "('g, 'e, 'o, 'a) ops \<Rightarrow> args \<Rightarrow> 'g run_state \<Rightarrow> 'g outcome option"
where
  "train_loop S A st =
     (if training_iters st < num_epochs A * num_steps_per_epoch A then
        (case cycle S A st of
           None \<Rightarrow> None
         | Some (Raised e st') \<Rightarrow> Some (Raised e st')
         | Some (Returned st') \<Rightarrow> train_loop S A st')
      else Some (Returned st))"

text \<open>
  Lines 18 to 106: the state in which the loop starts, in an empty output directory.
  Loading the buffer (lines 19 to 21) and constructing the agent touch none of it.
\<close>

definition init_state :: "('g, 'e, 'o, 'a) ops \<Rightarrow> args \<Rightarrow> 'g run_state" where
  "init_state S A =
     \<lparr>agent = map_option (new_agent S) (select_agent (algo A)),
      evaluations = [],
      training_iters = 0,
      best_score = Fin (- 100),
      eval_file = None,
      best_score_file = None,
      model_file = None,
      trace = []\<rparr>"

definition train_agent :: "('g, 'e, 'o, 'a) ops \<Rightarrow> args \<Rightarrow> 'g outcome option" where
  "train_agent S A = train_loop S A (init_state S A)"

text \<open>
  Lines 166 to 198: the values \<^verbatim>\<open>argparse\<close> gives the arguments when the command line
  sets none of them.
\<close>

definition default_args :: args where
  "default_args =
     \<lparr>algo = ''bc'',
      env_name = ''walker2d-expert-v2'',
      seed = 0,
      num_epochs = 500,
      num_steps_per_epoch = 1000,
      eval_freq = 50,
      eval_episodes = 10,
      batch_size = 256,
      save_best_model = False\<rparr>"

section \<open>Notions used to state the properties\<close>

text \<open>The normalized average of an evaluation record (\<^verbatim>\<open>eval_norm_res\<close>).\<close>

definition norm_avg :: "eval_record \<Rightarrow> pyfloat" where
  "norm_avg r = fst (snd (snd r))"

text \<open>The events of lines 126 to 133 for a record, against a running best.\<close>

definition selection_events :: "bool \<Rightarrow> int \<Rightarrow> eval_record \<Rightarrow> pyfloat \<Rightarrow> event list" where
  "selection_events save e r best =
     (if ge_f (norm_avg r) best
      then (if save then [Save_Model] else []) @ [Write_Best (make_best_res e r)]
      else [])"

text \<open>
  Feeding a sequence of evaluation records, each with the epoch of its cycle, through
  the selection step, one after the other, as the passes of the loop do.
\<close>

definition replay :: "bool \<Rightarrow> (int \<times> eval_record) list \<Rightarrow> 'g run_state \<Rightarrow> 'g run_state" where
  "replay save recs st = foldl (\<lambda>s (e, r). select_best save e r s) st recs"

text \<open>The most recent record of a sequence whose normalized average is the number \<open>m\<close>.\<close>

definition last_achiever :: "real \<Rightarrow> (int \<times> eval_record) list \<Rightarrow> (int \<times> eval_record) option" where
  "last_achiever m recs = find (\<lambda>(e, r). norm_avg r = Fin m) (rev recs)"

text \<open>The normalized averages of a sequence that are numbers.\<close>

definition finite_avgs :: "(int \<times> eval_record) list \<Rightarrow> real list" where
  "finite_avgs recs =
     concat (map (\<lambda>(e, r). case norm_avg r of Fin v \<Rightarrow> [v] | NaN \<Rightarrow> []) recs)"

text \<open>Projections of a trace.\<close>

fun is_train :: "event \<Rightarrow> bool" where
  "is_train (Agent_Train it bs) = True"
| "is_train _ = False"

fun is_epoch :: "event \<Rightarrow> bool" where
  "is_epoch (Trained_Epochs e) = True"
| "is_epoch _ = False"

fun is_make :: "event \<Rightarrow> bool" where
  "is_make (Gym_Make name) = True"
| "is_make _ = False"

fun is_seed :: "event \<Rightarrow> bool" where
  "is_seed (Env_Seed sd) = True"
| "is_seed _ = False"

fun is_write_best :: "event \<Rightarrow> bool" where
  "is_write_best (Write_Best b) = True"
| "is_write_best _ = False"

fun saved_history :: "event \<Rightarrow> eval_record list list" where
  "saved_history (Np_Save h) = [h]"
| "saved_history _ = []"

text \<open>
  The records of a run, each with the epoch logged in its pass (\<^verbatim>\<open>curr_epoch\<close>).
\<close>

fun logged_epoch :: "event \<Rightarrow> int list" where
  "logged_epoch (Trained_Epochs e) = [e]"
| "logged_epoch _ = []"

definition run_records :: "'g run_state \<Rightarrow> (int \<times> eval_record) list" where
  "run_records st = zip (concat (map logged_epoch (trace st))) (evaluations st)"

text \<open>
  A normalizer given by a function on numbers; nan goes to nan, as arithmetic on nan
  does.
\<close>

fun on_numbers :: "(real \<Rightarrow> real) \<Rightarrow> pyfloat \<Rightarrow> pyfloat" where
  "on_numbers f (Fin r) = Fin (f r)"
| "on_numbers f NaN = NaN"

text \<open>
  The statistics in the specification's words: the mean of a list of numbers and the
  population standard deviation (the root of the mean squared distance to the mean).
\<close>

definition mean :: "real list \<Rightarrow> real" where
  "mean xs = (\<Sum>x\<leftarrow>xs. x) / real (length xs)"

definition population_std :: "real list \<Rightarrow> real" where
  "population_std xs = sqrt ((\<Sum>x\<leftarrow>xs. (x - mean xs)\<^sup>2) / real (length xs))"

text \<open>
  Stand-ins for the collaborators, to run the definitions on: the agent counts the
  training iterations it was given, every episode lasts one step, and the episodes of
  an evaluation return the numbers of a script, one after the other.
\<close>

definition scripted_ops ::
  "pyfloat list \<Rightarrow> (pyfloat \<Rightarrow> pyfloat) \<Rightarrow> (int, pyfloat list, unit, unit) ops"
where
  "scripted_ops script f =
     \<lparr>new_agent = (\<lambda>c. 0),
      agent_train = (\<lambda>iterations bs g. g + iterations),
      sample_action = (\<lambda>state g. ((), g)),
      gym_make = (\<lambda>name. script),
      env_seed = (\<lambda>sd env. env),
      env_reset = (\<lambda>env. ((), env)),
      env_step = (\<lambda>action env. (((), (case env of [] \<Rightarrow> Fin 0 | r # rs \<Rightarrow> r), True), tl env)),
      get_normalized_score = (\<lambda>env. f)\<rparr>"

text \<open>The returns of the first \<open>n\<close> episodes of a scripted environment.\<close>

fun scripted_returns :: "nat \<Rightarrow> pyfloat list \<Rightarrow> pyfloat list" where
  "scripted_returns 0 env = []"
| "scripted_returns (Suc n) env =
     add_f (Fin 0) (case env of [] \<Rightarrow> Fin 0 | r # rs \<Rightarrow> r) # scripted_returns n (tl env)"

section \<open>Auxiliary facts\<close>

lemma select_best_cases:
  "select_best save e r st =
     (if ge_f (norm_avg r) (best_score st) then
        st\<lparr>best_score := norm_avg r,
           best_score_file := Some (make_best_res e r),
           model_file := (if save then agent st else model_file st),
           trace := trace st @ (if save then [Save_Model] else [])
                      @ [Write_Best (make_best_res e r)]\<rparr>
      else st)"
  by (cases r) (simp add: select_best_def norm_avg_def)

lemma select_best_fields:
  "agent (select_best save e r st) = agent st"
  "evaluations (select_best save e r st) = evaluations st"
  "training_iters (select_best save e r st) = training_iters st"
  "eval_file (select_best save e r st) = eval_file st"
  "trace (select_best save e r st) = trace st @ selection_events save e r (best_score st)"
  by (simp_all add: select_best_cases selection_events_def)

lemma select_best_view:
  "best_score (select_best save e r st) =
     (if ge_f (norm_avg r) (best_score st) then norm_avg r else best_score st)"
  "best_score_file (select_best save e r st) =
     (if ge_f (norm_avg r) (best_score st) then Some (make_best_res e r)
      else best_score_file st)"
  "model_file (select_best save e r st) =
     (if ge_f (norm_avg r) (best_score st) \<and> save then agent st else model_file st)"
  by (simp_all add: select_best_cases)

lemma make_best_res_fields:
  "epoch (make_best_res e r) = e"
  "best_normalized_score_avg (make_best_res e r) = norm_avg r"
  by (cases r; simp add: make_best_res_def norm_avg_def)+

lemma eval_policy_events:
  "eval_policy S g name sd n = Some (r, g', evs) \<Longrightarrow> evs = [Gym_Make name, Env_Seed (sd + 100)]"
  by (auto simp: eval_policy_def Let_def split: option.splits)

lemma cycle_Returned:
  assumes "cycle S A st = Some (Returned st')"
  obtains g r g' where
    "agent st = Some g" "num_steps_per_epoch A \<noteq> 0"
    "eval_policy S (agent_train S (eval_freq A * num_steps_per_epoch A) (batch_size A) g)
       (env_name A) (seed A) (eval_episodes A)
       = Some (r, g', [Gym_Make (env_name A), Env_Seed (seed A + 100)])"
    "agent st' = Some g'"
    "training_iters st' = training_iters st + eval_freq A * num_steps_per_epoch A"
    "evaluations st' = evaluations st @ [r]"
    "eval_file st' = Some (evaluations st @ [r])"
    "trace st' = trace st @
       [Agent_Train (eval_freq A * num_steps_per_epoch A) (batch_size A),
        Trained_Epochs ((training_iters st + eval_freq A * num_steps_per_epoch A) div num_steps_per_epoch A),
        Gym_Make (env_name A), Env_Seed (seed A + 100), Np_Save (evaluations st @ [r])]
       @ selection_events (save_best_model A)
           ((training_iters st + eval_freq A * num_steps_per_epoch A) div num_steps_per_epoch A) r (best_score st)"
    "best_score st' = (if ge_f (norm_avg r) (best_score st) then norm_avg r else best_score st)"
    "best_score_file st' =
       (if ge_f (norm_avg r) (best_score st)
        then Some (make_best_res ((training_iters st + eval_freq A * num_steps_per_epoch A) div num_steps_per_epoch A) r)
        else best_score_file st)"
    "model_file st' =
       (if ge_f (norm_avg r) (best_score st) \<and> save_best_model A then Some g' else model_file st)"
proof -
  from assms obtain g where g: "agent st = Some g"
    by (auto simp: cycle_def Let_def split: option.splits)
  from assms g have n0: "num_steps_per_epoch A \<noteq> 0"
    by (auto simp: cycle_def Let_def split: option.splits if_splits)
  from assms g n0 obtain r g' evs where
    ev: "eval_policy S (agent_train S (eval_freq A * num_steps_per_epoch A) (batch_size A) g)
       (env_name A) (seed A) (eval_episodes A) = Some (r, g', evs)"
    by (auto simp: cycle_def Let_def split: option.splits)
  have evs: "evs = [Gym_Make (env_name A), Env_Seed (seed A + 100)]"
    using ev by (rule eval_policy_events)
  from assms g n0 ev evs have st': "st' = select_best (save_best_model A)
      ((training_iters st + eval_freq A * num_steps_per_epoch A) div num_steps_per_epoch A) r st3"
    if "st3 = st\<lparr>training_iters := training_iters st + eval_freq A * num_steps_per_epoch A,
                 agent := Some g',
                 evaluations := evaluations st @ [r],
                 eval_file := Some (evaluations st @ [r]),
                 trace := trace st @
                   [Agent_Train (eval_freq A * num_steps_per_epoch A) (batch_size A),
                    Trained_Epochs ((training_iters st + eval_freq A * num_steps_per_epoch A) div num_steps_per_epoch A),
                    Gym_Make (env_name A), Env_Seed (seed A + 100), Np_Save (evaluations st @ [r])]\<rparr>" for st3
    using that by (simp add: cycle_def Let_def)
  show thesis
    by (rule that[OF g n0 ev[unfolded evs]])
       (simp_all add: st'[OF refl] select_best_fields select_best_view)
qed

lemma cycle_total:
  assumes "agent st = Some g" "num_steps_per_epoch A \<noteq> 0"
    "\<forall>g. eval_policy S g (env_name A) (seed A) (eval_episodes A) \<noteq> None"
  shows "\<exists>st'. cycle S A st = Some (Returned st')"
proof -
  from assms(3) obtain x where
    "eval_policy S (agent_train S (eval_freq A * num_steps_per_epoch A) (batch_size A) g)
       (env_name A) (seed A) (eval_episodes A) = Some x" by blast
  then show ?thesis using assms(1,2)
    by (cases x) (auto simp: cycle_def Let_def)
qed

lemma train_loop_rule:
  assumes run: "train_loop S A st = Some out"
    and init: "I st"
    and step: "\<And>s s'. I s \<Longrightarrow> training_iters s < num_epochs A * num_steps_per_epoch A
                 \<Longrightarrow> cycle S A s = Some (Returned s') \<Longrightarrow> I s'"
    and raised: "\<And>s e s'. I s \<Longrightarrow> training_iters s < num_epochs A * num_steps_per_epoch A
                 \<Longrightarrow> cycle S A s = Some (Raised e s') \<Longrightarrow> Q (Raised e s')"
    and exit: "\<And>s. I s \<Longrightarrow> \<not> training_iters s < num_epochs A * num_steps_per_epoch A
                 \<Longrightarrow> Q (Returned s)"
  shows "Q out"
proof -
  have "S' = S \<longrightarrow> A' = A \<longrightarrow> I s \<longrightarrow> Q out" if "train_loop S' A' s = Some out" for S' A' s out
  proof (rule train_loop.raw_induct[where P = "\<lambda>S' A' s out. S' = S \<longrightarrow> A' = A \<longrightarrow> I s \<longrightarrow> Q out", OF _ that])
    fix loop S' A' s out
    assume 1: "\<And>S' A' s out. loop S' A' s = Some out \<Longrightarrow> S' = S \<longrightarrow> A' = A \<longrightarrow> I s \<longrightarrow> Q out"
      "(if training_iters s < num_epochs A' * num_steps_per_epoch A'
        then case cycle S' A' s of None \<Rightarrow> None
             | Some (Returned st') \<Rightarrow> loop S' A' st'
             | Some (Raised e st') \<Rightarrow> Some (Raised e st')
        else Some (Returned s)) = Some out"
    show "S' = S \<longrightarrow> A' = A \<longrightarrow> I s \<longrightarrow> Q out"
    proof (intro impI)
      assume eq: "S' = S" "A' = A" and I: "I s"
      show "Q out"
      proof (cases "training_iters s < num_epochs A * num_steps_per_epoch A")
        case False
        with 1(2) eq have "out = Returned s" by simp
        with exit[OF I False] show ?thesis by simp
      next
        case True
        with 1(2) eq obtain o' where c: "cycle S A s = Some o'"
          by (auto split: option.splits)
        show ?thesis
        proof (cases o')
          case (Returned s')
          with 1(2) eq True c have "loop S A s' = Some out" by simp
          moreover have "I s'" using step[OF I True] c Returned by simp
          ultimately show ?thesis using 1(1) by blast
        next
          case (Raised e s')
          with 1(2) eq True c have "out = Raised e s'" by simp
          with raised[OF I True] c Raised show ?thesis by simp
        qed
      qed
    qed
  qed
  with run init show ?thesis by blast
qed

lemma train_loop_diverges:
  assumes inv: "I st"
    and step: "\<And>s. I s \<Longrightarrow> training_iters s < num_epochs A * num_steps_per_epoch A
                 \<and> (\<forall>out. cycle S A s = Some out \<longrightarrow> (\<exists>s'. out = Returned s' \<and> I s'))"
  shows "train_loop S A st = None"
proof (rule ccontr)
  assume "train_loop S A st \<noteq> None"
  then obtain out where run: "train_loop S A st = Some out" by blast
  have "S' = S \<longrightarrow> A' = A \<longrightarrow> \<not> I s" if "train_loop S' A' s = Some out" for S' A' s out
  proof (rule train_loop.raw_induct[where P = "\<lambda>S' A' s out. S' = S \<longrightarrow> A' = A \<longrightarrow> \<not> I s", OF _ that])
    fix loop S' A' s out
    assume 1: "\<And>S' A' s out. loop S' A' s = Some out \<Longrightarrow> S' = S \<longrightarrow> A' = A \<longrightarrow> \<not> I s"
      "(if training_iters s < num_epochs A' * num_steps_per_epoch A'
        then case cycle S' A' s of None \<Rightarrow> None
             | Some (Returned st') \<Rightarrow> loop S' A' st'
             | Some (Raised e st') \<Rightarrow> Some (Raised e st')
        else Some (Returned s)) = Some out"
    show "S' = S \<longrightarrow> A' = A \<longrightarrow> \<not> I s"
    proof (intro impI notI)
      assume eq: "S' = S" "A' = A" and I: "I s"
      from step[OF I] have lt: "training_iters s < num_epochs A * num_steps_per_epoch A"
        and nx: "\<And>out. cycle S A s = Some out \<Longrightarrow> \<exists>s'. out = Returned s' \<and> I s'" by blast+
      from 1(2) eq lt obtain o' where c: "cycle S A s = Some o'"
        by (auto split: option.splits)
      from nx[OF c] obtain s' where s': "o' = Returned s'" "I s'" by blast
      with 1(2) eq lt c have "loop S A s' = Some out" by simp
      with 1(1) s'(2) eq show False by blast
    qed
  qed
  with run inv show False by blast
qed

lemma train_loop_terminates:
  assumes pos: "0 < eval_freq A * num_steps_per_epoch A"
    and total: "\<forall>g. eval_policy S g (env_name A) (seed A) (eval_episodes A) \<noteq> None"
    and bound: "agent st \<noteq> None"
  shows "\<exists>st'. train_loop S A st = Some (Returned st')"
  using bound
proof (induction "nat (num_epochs A * num_steps_per_epoch A - training_iters st)"
        arbitrary: st rule: less_induct)
  case less
  show ?case
  proof (cases "training_iters st < num_epochs A * num_steps_per_epoch A")
    case False
    then show ?thesis by (subst train_loop.simps) simp
  next
    case True
    from less(2) obtain g where g: "agent st = Some g" by blast
    from pos have n0: "num_steps_per_epoch A \<noteq> 0" by auto
    from cycle_total[OF g n0 total] obtain s' where c: "cycle S A st = Some (Returned s')" by blast
    from c have ti: "training_iters s' = training_iters st + eval_freq A * num_steps_per_epoch A"
      and ag: "agent s' \<noteq> None"
      by (auto elim!: cycle_Returned)
    have "nat (num_epochs A * num_steps_per_epoch A - training_iters s')
           < nat (num_epochs A * num_steps_per_epoch A - training_iters st)"
      using ti pos True by linarith
    from less(1)[OF this ag] obtain st' where "train_loop S A s' = Some (Returned st')" by blast
    then show ?thesis using True c by (subst train_loop.simps) simp
  qed
qed


lemma replay_snoc: "replay save (recs @ [(e, r)]) st = select_best save e r (replay save recs st)"
  by (simp add: replay_def)

lemma replay_char:
  assumes "best_score st = Fin b"
  shows "\<exists>m. best_score (replay save recs st) = Fin m \<and> b \<le> m
           \<and> (\<forall>(e, r) \<in> set recs. \<forall>v. norm_avg r = Fin v \<longrightarrow> v \<le> m)
           \<and> (m = b \<or> (\<exists>(e, r) \<in> set recs. norm_avg r = Fin m))
           \<and> best_score_file (replay save recs st) =
               (case last_achiever m recs of
                  None \<Rightarrow> best_score_file st
                | Some (e, r) \<Rightarrow> Some (make_best_res e r))"
proof (induction recs rule: rev_induct)
  case Nil
  then show ?case using assms by (simp add: replay_def last_achiever_def)
next
  case (snoc x recs)
  then obtain m where m: "best_score (replay save recs st) = Fin m" "b \<le> m"
     "\<forall>(e, r) \<in> set recs. \<forall>v. norm_avg r = Fin v \<longrightarrow> v \<le> m"
     "m = b \<or> (\<exists>(e, r) \<in> set recs. norm_avg r = Fin m)"
     "best_score_file (replay save recs st) =
               (case last_achiever m recs of
                  None \<Rightarrow> best_score_file st
                | Some (e, r) \<Rightarrow> Some (make_best_res e r))" by blast
  obtain e r where x: "x = (e, r)" by (cases x)
  show ?case
  proof (cases "norm_avg r")
    case NaN
    then show ?thesis using m x
      by (auto simp: replay_snoc select_best_cases last_achiever_def intro!: exI[of _ m])
  next
    case (Fin v)
    show ?thesis
    proof (cases "m \<le> v")
      case True
      have "\<not> (\<exists>(e, r) \<in> set recs. norm_avg r = Fin v) \<or> v = m"
        using m(3) True by fastforce
      then show ?thesis using m x Fin True
        by (intro exI[of _ v]) (auto simp: replay_snoc select_best_cases last_achiever_def)
    next
      case False
      then show ?thesis using m x Fin
        by (intro exI[of _ m]) (auto simp: replay_snoc select_best_cases last_achiever_def)
    qed
  qed
qed

lemma scripted_episode:
  "run_episode (scripted_ops script f) state env g acc
     = Some (add_f acc (case env of [] \<Rightarrow> Fin 0 | r # rs \<Rightarrow> r), tl env, g)"
  by (subst run_episode.simps) (simp add: scripted_ops_def)

lemma scripted_ops_fields:
  "new_agent (scripted_ops script f) c = 0"
  "agent_train (scripted_ops script f) iterations bs g = g + iterations"
  "gym_make (scripted_ops script f) name = script"
  "env_seed (scripted_ops script f) sd env = env"
  "env_reset (scripted_ops script f) env = ((), env)"
  "get_normalized_score (scripted_ops script f) env = f"
  by (simp_all add: scripted_ops_def)

lemma scripted_episodes:
  "run_episodes (scripted_ops script f) n env g scores
     = Some (scores @ scripted_returns n env, drop n env, g)"
  by (induction n arbitrary: env scores)
     (simp_all add: scripted_episode scripted_ops_fields drop_Suc)

lemma scripted_eval:
  "eval_policy (scripted_ops script f) g name sd n
     = Some (aggregate f (scripted_returns (nat n) script), g, [Gym_Make name, Env_Seed (sd + 100)])"
  by (simp add: eval_policy_def scripted_episodes scripted_ops_fields)

lemmas scripted_run =
  cycle_def Let_def init_state_def default_args_def select_agent_def
  scripted_eval scripted_ops_fields aggregate_def np_mean_def np_std_def select_best_def make_best_res_def
  norm_avg_def

lemma cycle_Raised_fields:
  assumes "cycle S A st = Some (Raised e st')"
  shows "evaluations st' = evaluations st \<and> best_score st' = best_score st
       \<and> best_score_file st' = best_score_file st \<and> eval_file st' = eval_file st
       \<and> model_file st' = model_file st
       \<and> ((agent st = None \<and> e = UnboundLocalError \<and> st' = st)
          \<or> (num_steps_per_epoch A = 0 \<and> e = ZeroDivisionError
              \<and> trace st' = trace st @ [Agent_Train (eval_freq A * num_steps_per_epoch A) (batch_size A)]))"
  using assms by (auto simp: cycle_def Let_def split: option.splits if_splits)

lemma set_finite_avgs:
  "v \<in> set (finite_avgs recs) \<longleftrightarrow> (\<exists>x \<in> set recs. norm_avg (snd x) = Fin v)"
  by (induction recs) (force simp: finite_avgs_def split: pyfloat.splits)+

lemma last_achiever_None:
  "last_achiever m recs = None \<longleftrightarrow> m \<notin> set (finite_avgs recs)"
  by (force simp: last_achiever_def find_None_iff set_finite_avgs)

lemma last_achiever_Some:
  "last_achiever m recs = Some (e, r) \<Longrightarrow> norm_avg r = Fin m \<and> (e, r) \<in> set recs"
proof -
  have "find P xs = Some x \<Longrightarrow> P x \<and> x \<in> set xs" for P :: "(int \<times> eval_record) \<Rightarrow> bool" and xs x
    by (induction xs) (simp_all split: if_splits)
  from this[of "\<lambda>(e, r). norm_avg r = Fin m" "rev recs" "(e, r)"]
  show "last_achiever m recs = Some (e, r) \<Longrightarrow> norm_avg r = Fin m \<and> (e, r) \<in> set recs"
    by (simp add: last_achiever_def)
qed

lemma replay_append: "replay save (xs @ ys) st = replay save ys (replay save xs st)"
  by (simp add: replay_def)

lemma select_agent_None:
  "select_agent a = None \<longleftrightarrow>
     a \<notin> {''bc'', ''bc_mle'', ''bc_cvae'', ''bc_kl'', ''bc_mmd'', ''bc_w'', ''bc_gan'', ''bc_gan2''}"
  by (simp add: select_agent_def)

lemma concat_replicate_Suc: "concat (replicate (Suc n) xs) = concat (replicate n xs) @ xs"
  by (induction n) simp_all

lemma selection_events_projections:
  "filter (\<lambda>e. is_make e \<or> is_seed e) (selection_events save e r b) = []"
  "filter is_train (selection_events save e r b) = []"
  "filter (\<lambda>e. is_train e \<or> is_epoch e \<or> is_make e) (selection_events save e r b) = []"
  "concat (map saved_history (selection_events save e r b)) = []"
  by (auto simp: selection_events_def)

lemma scripted_first_cycle:
  "cycle (scripted_ops [Fin 3] (\<lambda>x. x))
     (default_args\<lparr>seed := 7, num_epochs := 100, eval_episodes := 1, save_best_model := True\<rparr>)
     (init_state (scripted_ops [Fin 3] (\<lambda>x. x))
        (default_args\<lparr>seed := 7, num_epochs := 100, eval_episodes := 1, save_best_model := True\<rparr>))
   = Some (Returned
       \<lparr>agent = Some 50000,
        evaluations = [(Fin 3, Fin 0, Fin 3, Fin 0)],
        training_iters = 50000,
        best_score = Fin 3,
        eval_file = Some [(Fin 3, Fin 0, Fin 3, Fin 0)],
        best_score_file = Some \<lparr>epoch = 50, best_normalized_score_avg = Fin 3,
           best_normalized_score_std = Fin 0, best_raw_score_avg = Fin 3,
           best_raw_score_std = Fin 0\<rparr>,
        model_file = Some 50000,
        trace = [Agent_Train 50000 256, Trained_Epochs 50,
                 Gym_Make ''walker2d-expert-v2'', Env_Seed 107,
                 Np_Save [(Fin 3, Fin 0, Fin 3, Fin 0)],
                 Save_Model,
                 Write_Best \<lparr>epoch = 50, best_normalized_score_avg = Fin 3,
                   best_normalized_score_std = Fin 0, best_raw_score_avg = Fin 3,
                   best_raw_score_std = Fin 0\<rparr>]\<rparr>)"
  by (simp add: scripted_run)

lemma scripted_two_cycles:
  "train_agent (scripted_ops [Fin 3] (\<lambda>x. x))
     (default_args\<lparr>seed := 7, num_epochs := 100, eval_episodes := 1, save_best_model := True\<rparr>)
   = Some (Returned
       \<lparr>agent = Some 100000,
        evaluations = [(Fin 3, Fin 0, Fin 3, Fin 0), (Fin 3, Fin 0, Fin 3, Fin 0)],
        training_iters = 100000,
        best_score = Fin 3,
        eval_file = Some [(Fin 3, Fin 0, Fin 3, Fin 0), (Fin 3, Fin 0, Fin 3, Fin 0)],
        best_score_file = Some \<lparr>epoch = 100, best_normalized_score_avg = Fin 3,
           best_normalized_score_std = Fin 0, best_raw_score_avg = Fin 3,
           best_raw_score_std = Fin 0\<rparr>,
        model_file = Some 100000,
        trace = [Agent_Train 50000 256, Trained_Epochs 50,
                 Gym_Make ''walker2d-expert-v2'', Env_Seed 107,
                 Np_Save [(Fin 3, Fin 0, Fin 3, Fin 0)],
                 Save_Model,
                 Write_Best \<lparr>epoch = 50, best_normalized_score_avg = Fin 3,
                   best_normalized_score_std = Fin 0, best_raw_score_avg = Fin 3,
                   best_raw_score_std = Fin 0\<rparr>,
                 Agent_Train 50000 256, Trained_Epochs 100,
                 Gym_Make ''walker2d-expert-v2'', Env_Seed 107,
                 Np_Save [(Fin 3, Fin 0, Fin 3, Fin 0), (Fin 3, Fin 0, Fin 3, Fin 0)],
                 Save_Model,
                 Write_Best \<lparr>epoch = 100, best_normalized_score_avg = Fin 3,
                   best_normalized_score_std = Fin 0, best_raw_score_avg = Fin 3,
                   best_raw_score_std = Fin 0\<rparr>]\<rparr>)"
  unfolding train_agent_def
  by (subst train_loop.simps, simp add: scripted_run, subst train_loop.simps,
      simp add: scripted_run, subst train_loop.simps, simp)

lemma unbound_agent_run:
  assumes "select_agent (algo A) = None"
  shows "train_agent S A =
     Some (if 0 < num_epochs A * num_steps_per_epoch A
           then Raised UnboundLocalError (init_state S A) else Returned (init_state S A))"
proof -
  from assms have ag: "agent (init_state S A) = None"
    by (simp add: init_state_def)
  have ti: "training_iters (init_state S A) = 0" by (simp add: init_state_def)
  have c: "cycle S A (init_state S A) = Some (Raised UnboundLocalError (init_state S A))"
    using ag by (simp add: cycle_def Let_def)
  show ?thesis
    unfolding train_agent_def by (subst train_loop.simps) (simp add: ti c)
qed

lemma cadence_block:
  "concat (map f [1..<Suc (Suc n)]) = concat (map f [1..<Suc n]) @ f (Suc n)"
  by simp

lemma run_shape:
  assumes nspe: "0 < num_steps_per_epoch A" and ef: "0 < eval_freq A"
    and bound: "select_agent (algo A) \<noteq> None"
    and total: "\<forall>g. eval_policy S g (env_name A) (seed A) (eval_episodes A) \<noteq> None"
  shows "\<exists>st n. train_agent S A = Some (Returned st)
     \<and> training_iters st = int n * (eval_freq A * num_steps_per_epoch A)
     \<and> (n = 0 \<or> (int n - 1) * eval_freq A < num_epochs A)
     \<and> num_epochs A \<le> int n * eval_freq A
     \<and> length (evaluations st) = n
     \<and> length (filter is_train (trace st)) = n
     \<and> filter (\<lambda>e. is_train e \<or> is_epoch e \<or> is_make e) (trace st)
         = concat (map (\<lambda>k. [Agent_Train (eval_freq A * num_steps_per_epoch A) (batch_size A),
                               Trained_Epochs (int k * eval_freq A),
                               Gym_Make (env_name A)]) [1..<Suc n])"
proof -
  let ?it = "eval_freq A * num_steps_per_epoch A"
  let ?max = "num_epochs A * num_steps_per_epoch A"
  let ?blk = "\<lambda>k. [Agent_Train ?it (batch_size A), Trained_Epochs (int k * eval_freq A),
                    Gym_Make (env_name A)]"
  let ?I = "\<lambda>s::'a run_state. \<exists>n. training_iters s = int n * ?it
     \<and> (n = 0 \<or> (int n - 1) * ?it < ?max)
     \<and> length (evaluations s) = n
     \<and> length (filter is_train (trace s)) = n
     \<and> filter (\<lambda>e. is_train e \<or> is_epoch e \<or> is_make e) (trace s) = concat (map ?blk [1..<Suc n])"
  have pos: "0 < ?it" using nspe ef by simp
  have ag: "agent (init_state S A) \<noteq> None" using bound by (simp add: init_state_def)
  from train_loop_terminates[OF pos total ag] obtain st where
    run: "train_loop S A (init_state S A) = Some (Returned st)" by blast
  have "\<forall>s. Returned st = Returned s \<longrightarrow> ?I s \<and> \<not> training_iters s < ?max"
  proof (rule train_loop_rule[where I = ?I
          and Q = "\<lambda>out. \<forall>s. out = Returned s \<longrightarrow> ?I s \<and> \<not> training_iters s < ?max", OF run])
    show "?I (init_state S A)" by (simp add: init_state_def)
  next
    fix s s' assume I: "?I s" and lt: "training_iters s < ?max"
      and c: "cycle S A s = Some (Returned s')"
    from I obtain n where n: "training_iters s = int n * ?it"
      "length (evaluations s) = n" "length (filter is_train (trace s)) = n"
      "filter (\<lambda>e. is_train e \<or> is_epoch e \<or> is_make e) (trace s) = concat (map ?blk [1..<Suc n])"
      by blast
    from c show "?I s'"
    proof (rule cycle_Returned)
      fix g r g'
      assume ti: "training_iters s' = training_iters s + ?it"
        and ev: "evaluations s' = evaluations s @ [r]"
        and tr: "trace s' = trace s @
           [Agent_Train ?it (batch_size A),
            Trained_Epochs ((training_iters s + ?it) div num_steps_per_epoch A),
            Gym_Make (env_name A), Env_Seed (seed A + 100), Np_Save (evaluations s @ [r])]
           @ selection_events (save_best_model A)
               ((training_iters s + ?it) div num_steps_per_epoch A) r (best_score s)"
      have t1: "training_iters s + ?it = int (Suc n) * ?it"
        using n(1) by (simp add: algebra_simps)
      have "(int (Suc n) * eval_freq A) * num_steps_per_epoch A div num_steps_per_epoch A
              = int (Suc n) * eval_freq A"
        using nspe by (intro nonzero_mult_div_cancel_right) simp
      then have ep: "(training_iters s + ?it) div num_steps_per_epoch A = int (Suc n) * eval_freq A"
        by (simp add: t1 mult.assoc)
      have "training_iters s' = int (Suc n) * ?it" using ti t1 by simp
      moreover have "(int (Suc n) - 1) * ?it < ?max" using lt n(1) by simp
      moreover have "length (evaluations s') = Suc n" using ev n(2) by simp
      moreover have "length (filter is_train (trace s')) = Suc n"
        using n(3) by (simp add: tr selection_events_projections)
      moreover have "filter (\<lambda>e. is_train e \<or> is_epoch e \<or> is_make e) (trace s')
           = concat (map ?blk [1..<Suc (Suc n)])"
        unfolding cadence_block
        using n(4) by (simp add: tr ep selection_events_projections del: upt_Suc of_nat_Suc)
      ultimately show ?thesis by blast
    qed
  next
    fix s e s' assume "cycle S A s = Some (Raised e s')"
    show "\<forall>t. Raised e s' = Returned t \<longrightarrow> ?I t \<and> \<not> training_iters t < ?max" by simp
  next
    fix s assume "?I s" "\<not> training_iters s < ?max"
    then show "\<forall>t. Returned s = Returned t \<longrightarrow> ?I t \<and> \<not> training_iters t < ?max" by simp
  qed
  then obtain n where n: "training_iters st = int n * ?it"
     "n = 0 \<or> (int n - 1) * ?it < ?max"
     "length (evaluations st) = n" "length (filter is_train (trace st)) = n"
     "filter (\<lambda>e. is_train e \<or> is_epoch e \<or> is_make e) (trace st) = concat (map ?blk [1..<Suc n])"
     and ex: "\<not> training_iters st < ?max"
    by blast
  have a: "n = 0 \<or> (int n - 1) * eval_freq A < num_epochs A"
  proof (cases "n = 0")
    case False
    with n(2) have "((int n - 1) * eval_freq A) * num_steps_per_epoch A
                     < num_epochs A * num_steps_per_epoch A"
      by (simp add: mult.assoc)
    with nspe show ?thesis by (simp add: mult_less_cancel_right)
  qed simp
  have "num_epochs A * num_steps_per_epoch A \<le> (int n * eval_freq A) * num_steps_per_epoch A"
    using ex n(1) by (simp add: mult.assoc)
  with nspe have b: "num_epochs A \<le> int n * eval_freq A"
    by (simp add: mult_le_cancel_right)
  from run n a b show ?thesis
    unfolding train_agent_def by blast
qed

lemma ceiling_passes:
  assumes "0 < ef" "(int n - 1) * ef < ne" "ne \<le> int n * ef"
  shows "\<lceil>real_of_int ne / real_of_int ef\<rceil> = int n"
proof (rule ceiling_unique)
  have "real_of_int ((int n - 1) * ef) < real_of_int ne"
    using assms(2) by (simp only: of_int_less_iff)
  then show "of_int (int n) - 1 < real_of_int ne / real_of_int ef"
    using assms(1) by (simp add: pos_less_divide_eq)
  have "real_of_int ne \<le> real_of_int (int n * ef)"
    using assms(3) by (simp only: of_int_le_iff)
  then show "real_of_int ne / real_of_int ef \<le> of_int (int n)"
    using assms(1) by (simp add: pos_divide_le_eq)
qed


lemma finite_vals_Fin: "finite_vals (map Fin rs) = Some rs"
  by (induction rs) simp_all

lemma np_mean_Fin: "rs \<noteq> [] \<Longrightarrow> np_mean (map Fin rs) = Fin (mean rs)"
  by (simp add: np_mean_def finite_vals_Fin mean_def)

lemma np_std_Fin: "rs \<noteq> [] \<Longrightarrow> np_std (map Fin rs) = Fin (population_std rs)"
  by (simp add: np_std_def finite_vals_Fin population_std_def mean_def Let_def)

lemma sqrt_200_3: "8.1649 < sqrt (200 / 3)" "sqrt (200 / 3) < 8.1650"
proof -
  have "(8.1649 :: real)\<^sup>2 < 200 / 3" by (simp add: power2_eq_square)
  then show "8.1649 < sqrt (200 / 3)" by (rule real_less_rsqrt)
  have "(200 / 3 :: real) < 8.1650\<^sup>2" by (simp add: power2_eq_square)
  then show "sqrt (200 / 3) < 8.1650" by (intro real_less_lsqrt) simp_all
qed

lemma selection_events_epochs:
  "concat (map logged_epoch (selection_events save e r b)) = []"
  by (auto simp: selection_events_def)

lemma select_best_same_view:
  assumes "best_score s = best_score t" "best_score_file s = best_score_file t"
  shows "best_score (select_best save e r s) = best_score (select_best save' e r t)
       \<and> best_score_file (select_best save e r s) = best_score_file (select_best save' e r t)"
  using assms by (simp add: select_best_view)

lemma run_is_replay:
  assumes "train_agent S A = Some out"
  shows "best_score (final_state out)
           = best_score (replay (save_best_model A) (run_records (final_state out)) (init_state S A))
       \<and> best_score_file (final_state out)
           = best_score_file (replay (save_best_model A) (run_records (final_state out)) (init_state S A))"
proof -
  let ?rp = "\<lambda>s. replay (save_best_model A) (run_records s) (init_state S A)"
  let ?I = "\<lambda>s::'a run_state.
      length (concat (map logged_epoch (trace s))) = length (evaluations s)
      \<and> best_score s = best_score (?rp s) \<and> best_score_file s = best_score_file (?rp s)"
  from assms have run: "train_loop S A (init_state S A) = Some out" by (simp add: train_agent_def)
  have "?I (final_state out)"
  proof (rule train_loop_rule[where I = ?I and Q = "\<lambda>out. ?I (final_state out)", OF run])
    show "?I (init_state S A)" by (simp add: init_state_def run_records_def replay_def)
  next
    fix s s' assume I: "?I s" and c: "cycle S A s = Some (Returned s')"
    from c show "?I s'"
    proof (rule cycle_Returned)
      fix g r g'
      let ?e = "(training_iters s + eval_freq A * num_steps_per_epoch A) div num_steps_per_epoch A"
      assume ev: "evaluations s' = evaluations s @ [r]"
        and tr: "trace s' = trace s @
           [Agent_Train (eval_freq A * num_steps_per_epoch A) (batch_size A),
            Trained_Epochs ?e,
            Gym_Make (env_name A), Env_Seed (seed A + 100), Np_Save (evaluations s @ [r])]
           @ selection_events (save_best_model A) ?e r (best_score s)"
        and bs: "best_score s' = (if ge_f (norm_avg r) (best_score s) then norm_avg r else best_score s)"
        and bf: "best_score_file s' =
           (if ge_f (norm_avg r) (best_score s) then Some (make_best_res ?e r)
            else best_score_file s)"
      have ep: "concat (map logged_epoch (trace s')) = concat (map logged_epoch (trace s)) @ [?e]"
        by (simp add: tr selection_events_epochs)
      have rr: "run_records s' = run_records s @ [(?e, r)]"
        using I by (simp add: run_records_def ep ev)
      have "best_score s' = best_score (select_best (save_best_model A) ?e r s)"
        "best_score_file s' = best_score_file (select_best (save_best_model A) ?e r s)"
        by (simp_all add: bs bf select_best_view)
      moreover from I select_best_same_view[of s "?rp s" "save_best_model A" ?e r "save_best_model A"]
      have "best_score (select_best (save_best_model A) ?e r s)
              = best_score (select_best (save_best_model A) ?e r (?rp s))"
        "best_score_file (select_best (save_best_model A) ?e r s)
              = best_score_file (select_best (save_best_model A) ?e r (?rp s))"
        by simp_all
      ultimately show ?thesis
        using I by (simp add: rr replay_snoc ep ev)
    qed
  next
    fix s e s' assume I: "?I s" and c: "cycle S A s = Some (Raised e s')"
    from cycle_Raised_fields[OF c] I show "?I (final_state (Raised e s'))"
      by (auto simp: run_records_def)
  next
    fix s assume "?I s" then show "?I (final_state (Returned s))" by simp
  qed
  then show ?thesis by simp
qed


lemma replay_best:
  assumes "best_score st = Fin (- 100)"
  shows "if \<exists>v \<in> set (finite_avgs recs). - 100 \<le> v
         then \<exists>e r. last_achiever (Max (set (finite_avgs recs))) recs = Some (e, r)
                \<and> best_score_file (replay save recs st) = Some (make_best_res e r)
                \<and> best_normalized_score_avg (make_best_res e r) = Fin (Max (set (finite_avgs recs)))
                \<and> epoch (make_best_res e r) = e
         else best_score_file (replay save recs st) = best_score_file st"
proof -
  from replay_char[OF assms, of save recs] obtain m where
    m: "- 100 \<le> m"
       "\<forall>(e, r) \<in> set recs. \<forall>v. norm_avg r = Fin v \<longrightarrow> v \<le> m"
       "m = - 100 \<or> (\<exists>(e, r) \<in> set recs. norm_avg r = Fin m)"
       "best_score_file (replay save recs st) =
          (case last_achiever m recs of None \<Rightarrow> best_score_file st
           | Some (e, r) \<Rightarrow> Some (make_best_res e r))"
    by blast
  have ub: "\<And>v. v \<in> set (finite_avgs recs) \<Longrightarrow> v \<le> m"
    using m(2) by (force simp: set_finite_avgs)
  show ?thesis
  proof (cases "\<exists>v \<in> set (finite_avgs recs). - 100 \<le> v")
    case True
    then obtain v where v: "v \<in> set (finite_avgs recs)" "- 100 \<le> v" by blast
    have mem: "m \<in> set (finite_avgs recs)"
    proof (cases "m = - 100")
      case True
      with ub[OF v(1)] v(2) have "v = m" by simp
      with v(1) show ?thesis by simp
    next
      case False
      with m(3) show ?thesis by (force simp: set_finite_avgs)
    qed
    have mx: "Max (set (finite_avgs recs)) = m"
      using mem ub by (intro Max_eqI) auto
    from mem obtain e r where la: "last_achiever m recs = Some (e, r)"
      using last_achiever_None[of m recs] by (cases "last_achiever m recs") auto
    from last_achiever_Some[OF la] have "norm_avg r = Fin m" by simp
    with la m(4) mx True show ?thesis
      by (auto simp: make_best_res_fields)
  next
    case False
    then have "m \<notin> set (finite_avgs recs)" using m(1) by auto
    then have "last_achiever m recs = None" by (simp add: last_achiever_None)
    with m(4) False show ?thesis by simp
  qed
qed

section \<open>The selection step\<close>

text \<open>
  C2. The selection step updates if and only if the new normalized average is greater
  than or equal to the running best (Python's \<^verbatim>\<open>>=\<close>, so never for nan): then it sets
  the running best, overwrites \<^verbatim>\<open>best_score.txt\<close>, saves the checkpoint when
  \<^verbatim>\<open>save_best_model\<close> is set, and does nothing else; otherwise the state is unchanged.
  A normalized average equal to the running best is a full update. The same holds for
  the evaluation of every pass of the loop.
\<close>

theorem selection_decision_rule:
  "(ge_f (norm_avg r) (best_score st) \<longrightarrow>
      select_best save e r st =
        st\<lparr>best_score := norm_avg r,
           best_score_file := Some (make_best_res e r),
           model_file := (if save then agent st else model_file st),
           trace := trace st @ (if save then [Save_Model] else [])
                      @ [Write_Best (make_best_res e r)]\<rparr>)
   \<and> (\<not> ge_f (norm_avg r) (best_score st) \<longrightarrow> select_best save e r st = st)
   \<and> (best_score st = Fin b \<and> norm_avg r = Fin b \<longrightarrow>
        best_score_file (select_best save e r st) = Some (make_best_res e r)
        \<and> model_file (select_best save e r st) = (if save then agent st else model_file st)
        \<and> trace (select_best save e r st) =
            trace st @ (if save then [Save_Model] else []) @ [Write_Best (make_best_res e r)])
   \<and> (cycle S A st = Some (Returned st') \<longrightarrow>
        (\<exists>r'. evaluations st' = evaluations st @ [r']
          \<and> (ge_f (norm_avg r') (best_score st) \<longrightarrow>
                best_score st' = norm_avg r'
                \<and> best_score_file st' =
                    Some (make_best_res (training_iters st' div num_steps_per_epoch A) r')
                \<and> (save_best_model A \<longrightarrow> model_file st' = agent st')
                \<and> filter is_write_best (trace st') = filter is_write_best (trace st)
                     @ [Write_Best (make_best_res (training_iters st' div num_steps_per_epoch A) r')])
          \<and> (\<not> ge_f (norm_avg r') (best_score st) \<longrightarrow>
                best_score st' = best_score st
                \<and> best_score_file st' = best_score_file st
                \<and> model_file st' = model_file st
                \<and> filter is_write_best (trace st') = filter is_write_best (trace st))))"
proof (intro conjI impI)
  assume c: "cycle S A st = Some (Returned st')"
  then show "\<exists>r'. evaluations st' = evaluations st @ [r']
          \<and> (ge_f (norm_avg r') (best_score st) \<longrightarrow>
                best_score st' = norm_avg r'
                \<and> best_score_file st' =
                    Some (make_best_res (training_iters st' div num_steps_per_epoch A) r')
                \<and> (save_best_model A \<longrightarrow> model_file st' = agent st')
                \<and> filter is_write_best (trace st') = filter is_write_best (trace st)
                     @ [Write_Best (make_best_res (training_iters st' div num_steps_per_epoch A) r')])
          \<and> (\<not> ge_f (norm_avg r') (best_score st) \<longrightarrow>
                best_score st' = best_score st
                \<and> best_score_file st' = best_score_file st
                \<and> model_file st' = model_file st
                \<and> filter is_write_best (trace st') = filter is_write_best (trace st))"
    by (elim cycle_Returned) (simp add: selection_events_def)
qed (simp_all add: select_best_cases)

theorem selection_decision_rule_witness:
  "ge_f (norm_avg (Fin 3, Fin 0, Fin (- 100), Fin 0))
        (best_score (init_state (scripted_ops [Fin 3] (\<lambda>x. x)) default_args))
   \<and> select_best True 50 (Fin 3, Fin 0, Fin (- 100), Fin 0)
        (init_state (scripted_ops [Fin 3] (\<lambda>x. x)) default_args)
       = (init_state (scripted_ops [Fin 3] (\<lambda>x. x)) default_args)
           \<lparr>best_score := Fin (- 100),
            best_score_file := Some \<lparr>epoch = 50, best_normalized_score_avg = Fin (- 100),
               best_normalized_score_std = Fin 0, best_raw_score_avg = Fin 3,
               best_raw_score_std = Fin 0\<rparr>,
            model_file := Some 0,
            trace := [Save_Model, Write_Best \<lparr>epoch = 50, best_normalized_score_avg = Fin (- 100),
               best_normalized_score_std = Fin 0, best_raw_score_avg = Fin 3,
               best_raw_score_std = Fin 0\<rparr>]\<rparr>
   \<and> \<not> ge_f (norm_avg (Fin 3, Fin 0, Fin (- 101), Fin 0))
        (best_score (init_state (scripted_ops [Fin 3] (\<lambda>x. x)) default_args))
   \<and> select_best True 50 (Fin 3, Fin 0, Fin (- 101), Fin 0)
        (init_state (scripted_ops [Fin 3] (\<lambda>x. x)) default_args)
       = init_state (scripted_ops [Fin 3] (\<lambda>x. x)) default_args
   \<and> (\<exists>st'. cycle (scripted_ops [Fin 3] (\<lambda>x. x)) (default_args\<lparr>eval_episodes := 1\<rparr>)
          (init_state (scripted_ops [Fin 3] (\<lambda>x. x)) (default_args\<lparr>eval_episodes := 1\<rparr>))
         = Some (Returned st')
       \<and> evaluations st' = [(Fin 3, Fin 0, Fin 3, Fin 0)]
       \<and> best_score st' = Fin 3
       \<and> best_score_file st' = Some \<lparr>epoch = 50, best_normalized_score_avg = Fin 3,
               best_normalized_score_std = Fin 0, best_raw_score_avg = Fin 3,
               best_raw_score_std = Fin 0\<rparr>)"
proof -
  let ?S = "scripted_ops [Fin 3] (\<lambda>x. x)"
  let ?A = "default_args\<lparr>eval_episodes := 1\<rparr>"
  obtain st' where c: "cycle ?S ?A (init_state ?S ?A) = Some (Returned st')"
    by (simp add: scripted_run)
  have "evaluations st' = [(Fin 3, Fin 0, Fin 3, Fin 0)]
       \<and> best_score st' = Fin 3
       \<and> best_score_file st' = Some \<lparr>epoch = 50, best_normalized_score_avg = Fin 3,
               best_normalized_score_std = Fin 0, best_raw_score_avg = Fin 3,
               best_raw_score_std = Fin 0\<rparr>"
    using selection_decision_rule[of _ "init_state ?S ?A" _ _ _ ?S ?A st'] c
    by (auto simp: scripted_run)
  with c have "\<exists>st'. cycle ?S ?A (init_state ?S ?A) = Some (Returned st')
       \<and> evaluations st' = [(Fin 3, Fin 0, Fin 3, Fin 0)]
       \<and> best_score st' = Fin 3
       \<and> best_score_file st' = Some \<lparr>epoch = 50, best_normalized_score_avg = Fin 3,
               best_normalized_score_std = Fin 0, best_raw_score_avg = Fin 3,
               best_raw_score_std = Fin 0\<rparr>" by blast
  moreover note selection_decision_rule[of "(Fin 3, Fin 0, Fin (- 100), Fin 0)"
          "init_state (scripted_ops [Fin 3] (\<lambda>x. x)) default_args" True 50 "- 100" ?S ?A st']
        selection_decision_rule[of "(Fin 3, Fin 0, Fin (- 101), Fin 0)"
          "init_state (scripted_ops [Fin 3] (\<lambda>x. x)) default_args" True 50 0 ?S ?A st']
  ultimately show ?thesis
    by (simp add: norm_avg_def init_state_def make_best_res_def scripted_ops_fields
          default_args_def select_agent_def)
qed

text \<open>
  C1, as the code has it. The running best starts at the number \<open>-100\<close>, so a record
  below it is not taken. For any sequence of evaluation records fed through the
  selection step from a state whose running best is \<open>-100\<close> (every prefix of a run's
  records is such a sequence): if some normalized average considered so far is at
  least \<open>-100\<close>, then \<^verbatim>\<open>best_score.txt\<close> holds the record of the most recent
  evaluation that reaches the maximum of the normalized averages considered so far
  (nan is never taken and does not count), with that maximum as its normalized average
  and that evaluation's epoch; otherwise \<^verbatim>\<open>best_score.txt\<close> has not been written.
  The same holds at the end of a run for the records of the run, each with the epoch
  logged in its pass.
\<close>

theorem best_score_invariant:
  "(best_score st = Fin (- 100) \<longrightarrow>
      (if \<exists>v \<in> set (finite_avgs recs). - 100 \<le> v
       then \<exists>e r. last_achiever (Max (set (finite_avgs recs))) recs = Some (e, r)
              \<and> best_score_file (replay save recs st) = Some (make_best_res e r)
              \<and> best_normalized_score_avg (make_best_res e r) = Fin (Max (set (finite_avgs recs)))
              \<and> epoch (make_best_res e r) = e
       else best_score_file (replay save recs st) = best_score_file st))
   \<and> (train_agent S A = Some out \<longrightarrow>
      (if \<exists>v \<in> set (finite_avgs (run_records (final_state out))). - 100 \<le> v
       then \<exists>e r. last_achiever (Max (set (finite_avgs (run_records (final_state out)))))
                     (run_records (final_state out)) = Some (e, r)
              \<and> best_score_file (final_state out) = Some (make_best_res e r)
              \<and> best_normalized_score_avg (make_best_res e r)
                  = Fin (Max (set (finite_avgs (run_records (final_state out)))))
              \<and> epoch (make_best_res e r) = e
       else best_score_file (final_state out) = None))"
proof (intro conjI impI)
  assume "best_score st = Fin (- 100)"
  then show "if \<exists>v \<in> set (finite_avgs recs). - 100 \<le> v
       then \<exists>e r. last_achiever (Max (set (finite_avgs recs))) recs = Some (e, r)
              \<and> best_score_file (replay save recs st) = Some (make_best_res e r)
              \<and> best_normalized_score_avg (make_best_res e r) = Fin (Max (set (finite_avgs recs)))
              \<and> epoch (make_best_res e r) = e
       else best_score_file (replay save recs st) = best_score_file st"
    by (rule replay_best)
next
  assume run: "train_agent S A = Some out"
  have b0: "best_score (init_state S A) = Fin (- 100)" by (simp add: init_state_def)
  have f0: "best_score_file (init_state S A) = None" by (simp add: init_state_def)
  from run_is_replay[OF run] have e:
    "best_score_file (replay (save_best_model A) (run_records (final_state out)) (init_state S A))
       = best_score_file (final_state out)" by simp
  from replay_best[OF b0, of "run_records (final_state out)" "save_best_model A"]
  show "if \<exists>v \<in> set (finite_avgs (run_records (final_state out))). - 100 \<le> v
       then \<exists>e r. last_achiever (Max (set (finite_avgs (run_records (final_state out)))))
                     (run_records (final_state out)) = Some (e, r)
              \<and> best_score_file (final_state out) = Some (make_best_res e r)
              \<and> best_normalized_score_avg (make_best_res e r)
                  = Fin (Max (set (finite_avgs (run_records (final_state out)))))
              \<and> epoch (make_best_res e r) = e
       else best_score_file (final_state out) = None"
    unfolding e f0 .
qed

theorem best_score_invariant_witness:
  "best_score (init_state (scripted_ops [] (\<lambda>x. x)) default_args) = Fin (- 100)
   \<and> best_score_file
        (replay False
           [(50, (Fin 5, Fin 1, Fin (1/2), Fin (1/10))),
            (100, (Fin 7, Fin 2, Fin (7/10), Fin (1/5))),
            (150, (Fin 7, Fin 3, Fin (7/10), Fin (3/10))),
            (200, (Fin 2, Fin 1, Fin (1/5), Fin (1/10)))]
           (init_state (scripted_ops [] (\<lambda>x. x)) default_args))
       = Some \<lparr>epoch = 150, best_normalized_score_avg = Fin (7/10),
               best_normalized_score_std = Fin (3/10), best_raw_score_avg = Fin 7,
               best_raw_score_std = Fin 3\<rparr>
   \<and> (\<exists>out. train_agent (scripted_ops [Fin 3] (\<lambda>x. x))
          (default_args\<lparr>seed := 7, num_epochs := 100, eval_episodes := 1, save_best_model := True\<rparr>)
          = Some out
        \<and> run_records (final_state out)
            = [(50, (Fin 3, Fin 0, Fin 3, Fin 0)), (100, (Fin 3, Fin 0, Fin 3, Fin 0))]
        \<and> best_score_file (final_state out)
            = Some \<lparr>epoch = 100, best_normalized_score_avg = Fin 3,
                 best_normalized_score_std = Fin 0, best_raw_score_avg = Fin 3,
                 best_raw_score_std = Fin 0\<rparr>)"
proof -
  let ?S = "scripted_ops [Fin 3] (\<lambda>x. x)"
  let ?A = "default_args\<lparr>seed := 7, num_epochs := 100, eval_episodes := 1, save_best_model := True\<rparr>"
  let ?st = "init_state (scripted_ops [] (\<lambda>x. x)) default_args"
  let ?recs = "[(50 :: int, (Fin 5, Fin 1, Fin (1/2), Fin (1/10))),
            (100, (Fin 7, Fin 2, Fin (7/10), Fin (1/5))),
            (150, (Fin 7, Fin 3, Fin (7/10), Fin (3/10))),
            (200, (Fin 2, Fin 1, Fin (1/5), Fin (1/10)))]"
  have b0: "best_score ?st = Fin (- 100)" by (simp add: init_state_def)
  obtain out where run: "train_agent ?S ?A = Some out"
    using scripted_two_cycles by blast
  have rr: "run_records (final_state out)
            = [(50, (Fin 3, Fin 0, Fin 3, Fin 0)), (100, (Fin 3, Fin 0, Fin 3, Fin 0))]"
    using run by (auto simp: scripted_two_cycles run_records_def)
  note t = best_score_invariant[of ?st ?recs False ?S ?A out]
  from t[THEN conjunct1, THEN mp, OF b0]
  have 1: "best_score_file (replay False ?recs ?st)
       = Some \<lparr>epoch = 150, best_normalized_score_avg = Fin (7/10),
               best_normalized_score_std = Fin (3/10), best_raw_score_avg = Fin 7,
               best_raw_score_std = Fin 3\<rparr>"
    by (simp add: finite_avgs_def last_achiever_def norm_avg_def make_best_res_def)
  from t[THEN conjunct2, THEN mp, OF run]
  have 2: "best_score_file (final_state out)
            = Some \<lparr>epoch = 100, best_normalized_score_avg = Fin 3,
                 best_normalized_score_std = Fin 0, best_raw_score_avg = Fin 3,
                 best_raw_score_std = Fin 0\<rparr>"
    by (simp add: rr finite_avgs_def last_achiever_def norm_avg_def make_best_res_def)
  from b0 1 run rr 2 show ?thesis by blast
qed

text \<open>
  C1 as stated fails when the first normalized average is below \<open>-100\<close>: the maximum
  considered so far is \<open>-150\<close>, and no \<^verbatim>\<open>best_score.txt\<close> exists, after the selection
  step and after a whole run of one cycle.
\<close>

theorem best_score_invariant_counterexample:
  "finite_avgs [(50, (Fin (- 150), Fin 0, Fin (- 150), Fin 0))] = [- 150]
   \<and> best_score_file
        (replay False [(50, (Fin (- 150), Fin 0, Fin (- 150), Fin 0))]
           (init_state (scripted_ops [Fin (- 150)] (\<lambda>x. x)) default_args)) = None
   \<and> train_agent (scripted_ops [Fin (- 150)] (\<lambda>x. x))
        (default_args\<lparr>num_epochs := 50, eval_episodes := 1\<rparr>)
       = Some (Returned
           \<lparr>agent = Some 50000,
            evaluations = [(Fin (- 150), Fin 0, Fin (- 150), Fin 0)],
            training_iters = 50000,
            best_score = Fin (- 100),
            eval_file = Some [(Fin (- 150), Fin 0, Fin (- 150), Fin 0)],
            best_score_file = None,
            model_file = None,
            trace = [Agent_Train 50000 256, Trained_Epochs 50,
                     Gym_Make ''walker2d-expert-v2'', Env_Seed 100,
                     Np_Save [(Fin (- 150), Fin 0, Fin (- 150), Fin 0)]]\<rparr>)"
proof (intro conjI)
  show "train_agent (scripted_ops [Fin (- 150)] (\<lambda>x. x))
        (default_args\<lparr>num_epochs := 50, eval_episodes := 1\<rparr>)
       = Some (Returned
           \<lparr>agent = Some 50000,
            evaluations = [(Fin (- 150), Fin 0, Fin (- 150), Fin 0)],
            training_iters = 50000,
            best_score = Fin (- 100),
            eval_file = Some [(Fin (- 150), Fin 0, Fin (- 150), Fin 0)],
            best_score_file = None,
            model_file = None,
            trace = [Agent_Train 50000 256, Trained_Epochs 50,
                     Gym_Make ''walker2d-expert-v2'', Env_Seed 100,
                     Np_Save [(Fin (- 150), Fin 0, Fin (- 150), Fin 0)]]\<rparr>)"
    unfolding train_agent_def
    by (subst train_loop.simps, simp add: scripted_run, subst train_loop.simps, simp)
qed (simp_all add: finite_avgs_def norm_avg_def replay_def select_best_def init_state_def)


text \<open>
  C5. Replay: feeding a sequence of records and then the same sequence again, from the
  state in which \<^verbatim>\<open>train_agent\<close> starts, leaves the same \<^verbatim>\<open>best_score.txt\<close> and the
  same running best as feeding it once.
\<close>

theorem replay_idempotent:
  "best_score_file (replay save (recs @ recs) (init_state S A))
     = best_score_file (replay save recs (init_state S A))
   \<and> best_score (replay save (recs @ recs) (init_state S A))
     = best_score (replay save recs (init_state S A))"
proof -
  let ?st = "init_state S A"
  have b0: "best_score ?st = Fin (- 100)" by (simp add: init_state_def)
  from replay_char[OF b0, of save recs] obtain m where
    m: "best_score (replay save recs ?st) = Fin m"
       "\<forall>(e, r) \<in> set recs. \<forall>v. norm_avg r = Fin v \<longrightarrow> v \<le> m"
    by blast
  from replay_char[OF m(1), of save recs] obtain m' where
    m': "best_score (replay save recs (replay save recs ?st)) = Fin m'" "m \<le> m'"
        "m' = m \<or> (\<exists>(e, r) \<in> set recs. norm_avg r = Fin m')"
        "best_score_file (replay save recs (replay save recs ?st)) =
          (case last_achiever m' recs of None \<Rightarrow> best_score_file (replay save recs ?st)
           | Some (e, r) \<Rightarrow> Some (make_best_res e r))"
    by blast
  have eq: "m' = m" using m'(2,3) m(2) by fastforce
  from replay_char[OF b0, of save recs] m(1) have f1:
    "best_score_file (replay save recs ?st) =
          (case last_achiever m recs of None \<Rightarrow> best_score_file ?st
           | Some (e, r) \<Rightarrow> Some (make_best_res e r))"
    by auto
  show ?thesis
    using m'(1,4) m(1) f1 eq
    by (simp add: replay_append split: option.splits)
qed

text \<open>
  C9. The running best starts at \<open>-100\<close>. After any sequence of selection steps from
  the initial state, a record whose normalized average is a number below \<open>-100\<close>
  changes nothing. In a run that ends, if the normalized average of every evaluation is
  below \<open>-100\<close>, \<^verbatim>\<open>best_score.txt\<close> does not exist and was never written.
\<close>

theorem sentinel_initial_best:
  "best_score (init_state S A) = Fin (- 100)
   \<and> (norm_avg r = Fin v \<and> v < - 100 \<longrightarrow>
        select_best save e r (replay save recs (init_state S A))
          = replay save recs (init_state S A))
   \<and> (train_agent S A = Some out
        \<and> (\<forall>r \<in> set (evaluations (final_state out)). \<exists>v. norm_avg r = Fin v \<and> v < - 100) \<longrightarrow>
        best_score_file (final_state out) = None
        \<and> filter is_write_best (trace (final_state out)) = [])"
proof (intro conjI impI)
  show b0: "best_score (init_state S A) = Fin (- 100)" by (simp add: init_state_def)
  {
    assume r: "norm_avg r = Fin v \<and> v < - 100"
    from replay_char[OF b0, of save recs] obtain m where
      "best_score (replay save recs (init_state S A)) = Fin m" "- 100 \<le> m" by blast
    with r show "select_best save e r (replay save recs (init_state S A))
          = replay save recs (init_state S A)"
      by (simp add: select_best_cases)
  }
  {
    assume a: "train_agent S A = Some out
        \<and> (\<forall>r \<in> set (evaluations (final_state out)). \<exists>v. norm_avg r = Fin v \<and> v < - 100)"
    let ?low = "\<lambda>s. \<forall>r \<in> set (evaluations s). \<exists>v. norm_avg r = Fin v \<and> v < - 100"
    let ?I = "\<lambda>s::'a run_state. ?low s \<longrightarrow> best_score s = Fin (- 100) \<and> best_score_file s = None
                  \<and> filter is_write_best (trace s) = []"
    have "?I (final_state out)"
    proof (rule train_loop_rule[where I = ?I and Q = "\<lambda>out. ?I (final_state out)"])
      show "train_loop S A (init_state S A) = Some out"
        using a by (simp add: train_agent_def)
      show "?I (init_state S A)" by (simp add: init_state_def)
    next
      fix s s' assume I: "?I s" and c: "cycle S A s = Some (Returned s')"
      show "?I s'"
      proof
        assume low: "?low s'"
        from c show "best_score s' = Fin (- 100) \<and> best_score_file s' = None
                  \<and> filter is_write_best (trace s') = []"
        proof (rule cycle_Returned)
          fix g r g'
          assume ev: "evaluations s' = evaluations s @ [r]"
            and tr: "trace s' = trace s @
               [Agent_Train (eval_freq A * num_steps_per_epoch A) (batch_size A),
                Trained_Epochs ((training_iters s + eval_freq A * num_steps_per_epoch A) div num_steps_per_epoch A),
                Gym_Make (env_name A), Env_Seed (seed A + 100), Np_Save (evaluations s @ [r])]
               @ selection_events (save_best_model A)
                   ((training_iters s + eval_freq A * num_steps_per_epoch A) div num_steps_per_epoch A) r (best_score s)"
            and bs: "best_score s' = (if ge_f (norm_avg r) (best_score s) then norm_avg r else best_score s)"
            and bf: "best_score_file s' =
               (if ge_f (norm_avg r) (best_score s)
                then Some (make_best_res ((training_iters s + eval_freq A * num_steps_per_epoch A) div num_steps_per_epoch A) r)
                else best_score_file s)"
          from low ev have "?low s" and "\<exists>v. norm_avg r = Fin v \<and> v < - 100" by auto
          with I have "best_score s = Fin (- 100)" "best_score_file s = None"
             "filter is_write_best (trace s) = []" "\<not> ge_f (norm_avg r) (best_score s)"
            by auto
          then show ?thesis using tr bs bf by (simp add: selection_events_def)
        qed
      qed
    next
      fix s e s' assume I: "?I s" and c: "cycle S A s = Some (Raised e s')"
      from cycle_Raised_fields[OF c] I show "?I (final_state (Raised e s'))" by auto
    next
      fix s assume "?I s" then show "?I (final_state (Returned s))" by simp
    qed
    with a show "best_score_file (final_state out) = None" by blast
    from \<open>?I (final_state out)\<close> a show "filter is_write_best (trace (final_state out)) = []" by blast
  }
qed


theorem sentinel_initial_best_witness:
  "norm_avg (Fin (- 150), Fin 0, Fin (- 150), Fin 0) = Fin (- 150) \<and> (- 150 :: real) < - 100
   \<and> select_best True 100 (Fin (- 150), Fin 0, Fin (- 150), Fin 0)
        (replay True [(50, (Fin 40, Fin 2, Fin (1/2), Fin (1/10)))]
           (init_state (scripted_ops [Fin (- 200)] (\<lambda>x. x)) default_args))
       = replay True [(50, (Fin 40, Fin 2, Fin (1/2), Fin (1/10)))]
           (init_state (scripted_ops [Fin (- 200)] (\<lambda>x. x)) default_args)
   \<and> (\<exists>out. train_agent (scripted_ops [Fin (- 200)] (\<lambda>x. x))
              (default_args\<lparr>num_epochs := 100, eval_episodes := 1\<rparr>) = Some out
        \<and> evaluations (final_state out)
             = [(Fin (- 200), Fin 0, Fin (- 200), Fin 0), (Fin (- 200), Fin 0, Fin (- 200), Fin 0)]
        \<and> best_score_file (final_state out) = None
        \<and> filter is_write_best (trace (final_state out)) = [])"
proof -
  let ?S = "scripted_ops [Fin (- 200)] (\<lambda>x. x)"
  let ?A = "default_args\<lparr>num_epochs := 100, eval_episodes := 1\<rparr>"
  let ?r = "(Fin (- 200), Fin 0, Fin (- 200), Fin 0)"
  let ?low = "(Fin (- 150), Fin 0, Fin (- 150), Fin 0)"
  let ?recs = "[(50 :: int, (Fin 40, Fin 2, Fin (1/2), Fin (1/10)))]"
  define st where "st =
           \<lparr>agent = Some (100000 :: int),
            evaluations = [?r, ?r],
            training_iters = 100000,
            best_score = Fin (- 100),
            eval_file = Some [?r, ?r],
            best_score_file = None,
            model_file = None,
            trace = [Agent_Train 50000 256, Trained_Epochs 50,
                     Gym_Make ''walker2d-expert-v2'', Env_Seed 100, Np_Save [?r],
                     Agent_Train 50000 256, Trained_Epochs 100,
                     Gym_Make ''walker2d-expert-v2'', Env_Seed 100, Np_Save [?r, ?r]]\<rparr>"
  have run: "train_agent ?S ?A = Some (Returned st)"
    unfolding train_agent_def st_def
    by (subst train_loop.simps, simp add: scripted_run, subst train_loop.simps,
        simp add: scripted_run, subst train_loop.simps, simp)
  have evs: "evaluations st = [?r, ?r]"
    by (simp add: st_def)
  have low: "\<forall>r \<in> set (evaluations (final_state (Returned st))). \<exists>v. norm_avg r = Fin v \<and> v < - 100"
    by (simp add: evs norm_avg_def)
  note t1 = sentinel_initial_best[of ?S ?A ?low "- 150" True 100 ?recs "Returned st"]
  note t2 = sentinel_initial_best[of ?S default_args ?low "- 150" True 100 ?recs "Returned st"]
  have nl: "norm_avg ?low = Fin (- 150) \<and> (- 150 :: real) < - 100"
    by (simp add: norm_avg_def)
  have c2: "select_best True 100 ?low (replay True ?recs (init_state ?S default_args))
       = replay True ?recs (init_state ?S default_args)"
    using t2[THEN conjunct2, THEN conjunct1] nl by (rule mp)
  have c3: "best_score_file (final_state (Returned st)) = None
        \<and> filter is_write_best (trace (final_state (Returned st))) = []"
    using t1[THEN conjunct2, THEN conjunct2] conjI[OF run low] by (rule mp)
  have "\<exists>out. train_agent ?S ?A = Some out
        \<and> evaluations (final_state out) = [?r, ?r]
        \<and> best_score_file (final_state out) = None
        \<and> filter is_write_best (trace (final_state out)) = []"
    using run evs c3 by (intro exI[of _ "Returned st"] conjI) simp_all
  with nl c2 show ?thesis by (intro conjI) simp_all
qed

section \<open>The run\<close>

text \<open>
  C6, as the code has it. The chain of lines 23 to 101 has no \<^verbatim>\<open>else\<close>: for a name
  outside the recognized set nothing is raised there, and \<^verbatim>\<open>agent\<close> stays unbound.
  When \<^verbatim>\<open>num_epochs * num_steps_per_epoch\<close> is positive the loop is entered, and the
  run fails with \<^verbatim>\<open>UnboundLocalError\<close> at the first \<^verbatim>\<open>agent.train\<close>, before any
  training iteration, evaluation or write; otherwise the loop is not entered and the
  run returns without an error, having done nothing.
\<close>

theorem unknown_algo_fails_at_first_train:
  assumes "algo A \<notin> {''bc'', ''bc_mle'', ''bc_cvae'', ''bc_kl'', ''bc_mmd'', ''bc_w'', ''bc_gan'', ''bc_gan2''}"
  shows "(0 < num_epochs A * num_steps_per_epoch A \<longrightarrow>
            train_agent S A = Some (Raised UnboundLocalError (init_state S A)))
       \<and> (\<not> 0 < num_epochs A * num_steps_per_epoch A \<longrightarrow>
            train_agent S A = Some (Returned (init_state S A)))
       \<and> trace (init_state S A) = [] \<and> evaluations (init_state S A) = []
       \<and> training_iters (init_state S A) = 0"
proof -
  from assms have "select_agent (algo A) = None"
    using select_agent_None[of "algo A"] by blast
  then have ag: "agent (init_state S A) = None"
    by (simp add: init_state_def)
  have ti: "training_iters (init_state S A) = 0" by (simp add: init_state_def)
  have c: "cycle S A (init_state S A) = Some (Raised UnboundLocalError (init_state S A))"
    using ag by (simp add: cycle_def Let_def)
  show ?thesis
  proof (intro conjI impI)
    assume "0 < num_epochs A * num_steps_per_epoch A"
    then show "train_agent S A = Some (Raised UnboundLocalError (init_state S A))"
      unfolding train_agent_def by (subst train_loop.simps) (simp add: ti c)
  next
    assume "\<not> 0 < num_epochs A * num_steps_per_epoch A"
    then show "train_agent S A = Some (Returned (init_state S A))"
      unfolding train_agent_def by (subst train_loop.simps) (simp add: ti)
  qed (simp_all add: init_state_def)
qed

theorem unknown_algo_fails_at_first_train_witness:
  "algo (default_args\<lparr>algo := ''pcq''\<rparr>)
      \<notin> {''bc'', ''bc_mle'', ''bc_cvae'', ''bc_kl'', ''bc_mmd'', ''bc_w'', ''bc_gan'', ''bc_gan2''}
   \<and> 0 < num_epochs (default_args\<lparr>algo := ''pcq''\<rparr>)
           * num_steps_per_epoch (default_args\<lparr>algo := ''pcq''\<rparr>)
   \<and> train_agent (scripted_ops [Fin 3] (\<lambda>x. x)) (default_args\<lparr>algo := ''pcq''\<rparr>)
       = Some (Raised UnboundLocalError
           \<lparr>agent = None, evaluations = [], training_iters = 0, best_score = Fin (- 100),
            eval_file = None, best_score_file = None, model_file = None, trace = []\<rparr>)"
  using unknown_algo_fails_at_first_train[of "default_args\<lparr>algo := ''pcq''\<rparr>"
          "scripted_ops [Fin 3] (\<lambda>x. x)"]
  by (simp add: default_args_def init_state_def select_agent_def)

text \<open>
  C6 as stated fails for an unrecognized name with \<^verbatim>\<open>num_epochs = 0\<close>: the run
  returns normally.
\<close>

theorem unknown_algo_counterexample:
  "algo (default_args\<lparr>algo := ''pcq'', num_epochs := 0\<rparr>)
      \<notin> {''bc'', ''bc_mle'', ''bc_cvae'', ''bc_kl'', ''bc_mmd'', ''bc_w'', ''bc_gan'', ''bc_gan2''}
   \<and> train_agent (scripted_ops [Fin 3] (\<lambda>x. x)) (default_args\<lparr>algo := ''pcq'', num_epochs := 0\<rparr>)
       = Some (Returned
           \<lparr>agent = None, evaluations = [], training_iters = 0, best_score = Fin (- 100),
            eval_file = None, best_score_file = None, model_file = None, trace = []\<rparr>)"
  unfolding train_agent_def
  by (subst train_loop.simps) (simp add: default_args_def init_state_def select_agent_def)

text \<open>
  C7. A call of \<^verbatim>\<open>eval_policy\<close> that returns has made exactly one environment, has
  seeded it with \<^verbatim>\<open>seed + 100\<close>, and has run its episodes in that environment. Every
  pass of the loop adds exactly one such pair of calls, with \<^verbatim>\<open>args.seed + 100\<close>, and
  a run that ends has made one pair for each of its evaluations.
\<close>

theorem evaluation_environment_seed:
  "(eval_policy S g name sd n = Some (r, g', evs) \<longrightarrow>
      evs = [Gym_Make name, Env_Seed (sd + 100)]
      \<and> (\<exists>scores env'.
            run_episodes S (nat n) (env_seed S (sd + 100) (gym_make S name)) g []
              = Some (scores, env', g')
            \<and> r = aggregate (get_normalized_score S env') scores))
   \<and> (cycle S A st = Some (Returned st') \<longrightarrow>
        filter (\<lambda>e. is_make e \<or> is_seed e) (trace st')
          = filter (\<lambda>e. is_make e \<or> is_seed e) (trace st)
              @ [Gym_Make (env_name A), Env_Seed (seed A + 100)])
   \<and> (train_agent S A = Some out \<longrightarrow>
        filter (\<lambda>e. is_make e \<or> is_seed e) (trace (final_state out))
          = concat (replicate (length (evaluations (final_state out)))
                      [Gym_Make (env_name A), Env_Seed (seed A + 100)]))"
proof (intro conjI impI)
  assume "eval_policy S g name sd n = Some (r, g', evs)"
  then show "\<exists>scores env'.
            run_episodes S (nat n) (env_seed S (sd + 100) (gym_make S name)) g []
              = Some (scores, env', g')
            \<and> r = aggregate (get_normalized_score S env') scores"
    by (auto simp: eval_policy_def Let_def split: option.splits)
next
  assume "eval_policy S g name sd n = Some (r, g', evs)"
  then show "evs = [Gym_Make name, Env_Seed (sd + 100)]" by (rule eval_policy_events)
next
  assume "cycle S A st = Some (Returned st')"
  then show "filter (\<lambda>e. is_make e \<or> is_seed e) (trace st')
          = filter (\<lambda>e. is_make e \<or> is_seed e) (trace st)
              @ [Gym_Make (env_name A), Env_Seed (seed A + 100)]"
    by (elim cycle_Returned) (simp add: selection_events_projections)
next
  let ?I = "\<lambda>s::'a run_state. filter (\<lambda>e. is_make e \<or> is_seed e) (trace s)
          = concat (replicate (length (evaluations s))
                      [Gym_Make (env_name A), Env_Seed (seed A + 100)])"
  assume "train_agent S A = Some out"
  then have run: "train_loop S A (init_state S A) = Some out" by (simp add: train_agent_def)
  show "?I (final_state out)"
  proof (rule train_loop_rule[where I = ?I and Q = "\<lambda>out. ?I (final_state out)", OF run])
    show "?I (init_state S A)" by (simp add: init_state_def)
  next
    fix s s' assume "?I s" "cycle S A s = Some (Returned s')"
    then show "?I s'"
      by (elim cycle_Returned) (simp add: selection_events_projections concat_replicate_Suc del: replicate_Suc)
  next
    fix s e s' assume "?I s" "cycle S A s = Some (Raised e s')"
    then show "?I (final_state (Raised e s'))"
      using cycle_Raised_fields[of S A s e s'] by auto
  next
    fix s assume "?I s" then show "?I (final_state (Returned s))" by simp
  qed
qed

theorem evaluation_environment_seed_witness:
  "(\<exists>r g'. eval_policy (scripted_ops [Fin 3] (\<lambda>x. x)) 0 ''hopper-medium-v2'' 7 1
       = Some (r, g', [Gym_Make ''hopper-medium-v2'', Env_Seed 107]))
   \<and> (\<exists>st'. cycle (scripted_ops [Fin 3] (\<lambda>x. x))
          (default_args\<lparr>seed := 7, num_epochs := 100, eval_episodes := 1, save_best_model := True\<rparr>)
          (init_state (scripted_ops [Fin 3] (\<lambda>x. x))
            (default_args\<lparr>seed := 7, num_epochs := 100, eval_episodes := 1, save_best_model := True\<rparr>))
          = Some (Returned st')
        \<and> filter (\<lambda>e. is_make e \<or> is_seed e) (trace st')
            = [Gym_Make ''walker2d-expert-v2'', Env_Seed 107])
   \<and> (\<exists>out. train_agent (scripted_ops [Fin 3] (\<lambda>x. x))
          (default_args\<lparr>seed := 7, num_epochs := 100, eval_episodes := 1, save_best_model := True\<rparr>)
          = Some out
        \<and> length (evaluations (final_state out)) = 2
        \<and> filter (\<lambda>e. is_make e \<or> is_seed e) (trace (final_state out))
            = [Gym_Make ''walker2d-expert-v2'', Env_Seed 107,
               Gym_Make ''walker2d-expert-v2'', Env_Seed 107])"
proof -
  let ?S = "scripted_ops [Fin 3] (\<lambda>x. x)"
  let ?A = "default_args\<lparr>seed := 7, num_epochs := 100, eval_episodes := 1, save_best_model := True\<rparr>"
  obtain r g' evs where ev: "eval_policy ?S 0 ''hopper-medium-v2'' 7 1 = Some (r, g', evs)"
    by (simp add: scripted_eval)
  obtain st' where c: "cycle ?S ?A (init_state ?S ?A) = Some (Returned st')"
    using scripted_first_cycle by blast
  obtain out where run: "train_agent ?S ?A = Some out"
    using scripted_two_cycles by blast
  note t = evaluation_environment_seed[of ?S 0 "''hopper-medium-v2''" 7 1 r g' evs ?A
              "init_state ?S ?A" st' out]
  from t[THEN conjunct1, THEN mp, OF ev, THEN conjunct1] ev
  have 1: "\<exists>r g'. eval_policy ?S 0 ''hopper-medium-v2'' 7 1
       = Some (r, g', [Gym_Make ''hopper-medium-v2'', Env_Seed 107])"
    by (intro exI[of _ r] exI[of _ g']) simp
  from t[THEN conjunct2, THEN conjunct1, THEN mp, OF c] c
  have 2: "\<exists>st'. cycle ?S ?A (init_state ?S ?A) = Some (Returned st')
        \<and> filter (\<lambda>e. is_make e \<or> is_seed e) (trace st')
            = [Gym_Make ''walker2d-expert-v2'', Env_Seed 107]"
    by (intro exI[of _ st']) (simp add: init_state_def default_args_def)
  have len: "length (evaluations (final_state out)) = 2"
    using run by (auto simp: scripted_two_cycles)
  from t[THEN conjunct2, THEN conjunct2, THEN mp, OF run] run len
  have 3: "\<exists>out. train_agent ?S ?A = Some out
        \<and> length (evaluations (final_state out)) = 2
        \<and> filter (\<lambda>e. is_make e \<or> is_seed e) (trace (final_state out))
            = [Gym_Make ''walker2d-expert-v2'', Env_Seed 107,
               Gym_Make ''walker2d-expert-v2'', Env_Seed 107]"
    by (intro exI[of _ out]) (simp add: default_args_def numeral_2_eq_2)
  from 1 2 3 show ?thesis by (intro conjI)
qed

text \<open>
  C8. A pass of the loop that returns appends exactly one record to \<^verbatim>\<open>evaluations\<close>
  and leaves the earlier ones as they were; \<^verbatim>\<open>np.save\<close> writes the whole history
  right after the evaluation, before the selection step. A pass that raises changes
  neither the history nor the file. In a run that ends, the \<open>k\<close>-th save wrote the
  first \<open>k\<close> records of the final history, and the file holds the final history.
\<close>

theorem evaluation_history_append_only:
  "(cycle S A st = Some (Returned st') \<longrightarrow>
      (\<exists>r. evaluations st' = evaluations st @ [r]
          \<and> eval_file st' = Some (evaluations st')
          \<and> trace st' = trace st @
               [Agent_Train (eval_freq A * num_steps_per_epoch A) (batch_size A),
                Trained_Epochs (training_iters st' div num_steps_per_epoch A),
                Gym_Make (env_name A), Env_Seed (seed A + 100),
                Np_Save (evaluations st')]
               @ selection_events (save_best_model A)
                   (training_iters st' div num_steps_per_epoch A) r (best_score st)))
   \<and> (cycle S A st = Some (Raised e st') \<longrightarrow>
        evaluations st' = evaluations st \<and> eval_file st' = eval_file st
        \<and> concat (map saved_history (trace st')) = concat (map saved_history (trace st)))
   \<and> (train_agent S A = Some out \<longrightarrow>
        concat (map saved_history (trace (final_state out)))
          = map (\<lambda>k. take k (evaluations (final_state out)))
              [1..<Suc (length (evaluations (final_state out)))]
        \<and> eval_file (final_state out)
          = (if evaluations (final_state out) = [] then None
             else Some (evaluations (final_state out))))"
proof (intro conjI impI)
  assume "cycle S A st = Some (Returned st')"
  then show "\<exists>r. evaluations st' = evaluations st @ [r]
          \<and> eval_file st' = Some (evaluations st')
          \<and> trace st' = trace st @
               [Agent_Train (eval_freq A * num_steps_per_epoch A) (batch_size A),
                Trained_Epochs (training_iters st' div num_steps_per_epoch A),
                Gym_Make (env_name A), Env_Seed (seed A + 100),
                Np_Save (evaluations st')]
               @ selection_events (save_best_model A)
                   (training_iters st' div num_steps_per_epoch A) r (best_score st)"
    by (elim cycle_Returned) simp
next
  assume c: "cycle S A st = Some (Raised e st')"
  from cycle_Raised_fields[OF c]
  show "evaluations st' = evaluations st" "eval_file st' = eval_file st"
    "concat (map saved_history (trace st')) = concat (map saved_history (trace st))"
    by auto
next
  let ?I = "\<lambda>s::'a run_state.
      concat (map saved_history (trace s))
          = map (\<lambda>k. take k (evaluations s)) [1..<Suc (length (evaluations s))]
        \<and> eval_file s = (if evaluations s = [] then None else Some (evaluations s))"
  assume "train_agent S A = Some out"
  then have run: "train_loop S A (init_state S A) = Some out" by (simp add: train_agent_def)
  have "?I (final_state out)"
  proof (rule train_loop_rule[where I = ?I and Q = "\<lambda>out. ?I (final_state out)", OF run])
    show "?I (init_state S A)" by (simp add: init_state_def)
  next
    fix s s' assume I: "?I s" and c: "cycle S A s = Some (Returned s')"
    from c show "?I s'"
    proof (rule cycle_Returned)
      fix g r g'
      assume ev: "evaluations s' = evaluations s @ [r]"
        and ef: "eval_file s' = Some (evaluations s @ [r])"
        and tr: "trace s' = trace s @
           [Agent_Train (eval_freq A * num_steps_per_epoch A) (batch_size A),
            Trained_Epochs ((training_iters s + eval_freq A * num_steps_per_epoch A) div num_steps_per_epoch A),
            Gym_Make (env_name A), Env_Seed (seed A + 100), Np_Save (evaluations s @ [r])]
           @ selection_events (save_best_model A)
               ((training_iters s + eval_freq A * num_steps_per_epoch A) div num_steps_per_epoch A) r (best_score s)"
      have "map (\<lambda>k. take k (evaluations s @ [r])) [1..<Suc (length (evaluations s))]
          = map (\<lambda>k. take k (evaluations s)) [1..<Suc (length (evaluations s))]"
        by (rule map_cong) auto
      then show ?thesis
        using I by (simp add: ev ef tr selection_events_projections)
    qed
  next
    fix s e s' assume "?I s" "cycle S A s = Some (Raised e s')"
    then show "?I (final_state (Raised e s'))"
      using cycle_Raised_fields[of S A s e s'] by auto
  next
    fix s assume "?I s" then show "?I (final_state (Returned s))" by simp
  qed
  then show "concat (map saved_history (trace (final_state out)))
          = map (\<lambda>k. take k (evaluations (final_state out)))
              [1..<Suc (length (evaluations (final_state out)))]"
    and "eval_file (final_state out)
          = (if evaluations (final_state out) = [] then None
             else Some (evaluations (final_state out)))" by blast+
qed


theorem evaluation_history_append_only_witness:
  "(\<exists>st'. cycle (scripted_ops [Fin 3] (\<lambda>x. x))
          (default_args\<lparr>seed := 7, num_epochs := 100, eval_episodes := 1, save_best_model := True\<rparr>)
          (init_state (scripted_ops [Fin 3] (\<lambda>x. x))
            (default_args\<lparr>seed := 7, num_epochs := 100, eval_episodes := 1, save_best_model := True\<rparr>))
          = Some (Returned st')
        \<and> (\<exists>r. evaluations st' = [r] \<and> eval_file st' = Some [r]))
   \<and> (\<exists>e st'. cycle (scripted_ops [Fin 3] (\<lambda>x. x)) (default_args\<lparr>algo := ''pcq''\<rparr>)
          (init_state (scripted_ops [Fin 3] (\<lambda>x. x)) (default_args\<lparr>algo := ''pcq''\<rparr>))
          = Some (Raised e st')
        \<and> evaluations st' = [] \<and> eval_file st' = None)
   \<and> (\<exists>out. train_agent (scripted_ops [Fin 3] (\<lambda>x. x))
          (default_args\<lparr>seed := 7, num_epochs := 100, eval_episodes := 1, save_best_model := True\<rparr>)
          = Some out
        \<and> concat (map saved_history (trace (final_state out)))
            = [take 1 (evaluations (final_state out)), take 2 (evaluations (final_state out))]
        \<and> eval_file (final_state out) = Some (evaluations (final_state out)))"
proof -
  let ?S = "scripted_ops [Fin 3] (\<lambda>x. x)"
  let ?A = "default_args\<lparr>seed := 7, num_epochs := 100, eval_episodes := 1, save_best_model := True\<rparr>"
  let ?B = "default_args\<lparr>algo := ''pcq''\<rparr>"
  obtain st' where c: "cycle ?S ?A (init_state ?S ?A) = Some (Returned st')"
    using scripted_first_cycle by blast
  have cB: "cycle ?S ?B (init_state ?S ?B) = Some (Raised UnboundLocalError (init_state ?S ?B))"
    by (simp add: cycle_def init_state_def default_args_def select_agent_def)
  obtain out where run: "train_agent ?S ?A = Some out"
    using scripted_two_cycles by blast
  from evaluation_history_append_only[of ?S ?A "init_state ?S ?A" st', THEN conjunct1, THEN mp, OF c] c
  have 1: "\<exists>st'. cycle ?S ?A (init_state ?S ?A) = Some (Returned st')
        \<and> (\<exists>r. evaluations st' = [r] \<and> eval_file st' = Some [r])"
    by (intro exI[of _ st']) (auto simp: init_state_def)
  from evaluation_history_append_only[of ?S ?B "init_state ?S ?B" "init_state ?S ?B"
         UnboundLocalError, THEN conjunct2, THEN conjunct1, THEN mp, OF cB] cB
  have 2: "\<exists>e st'. cycle ?S ?B (init_state ?S ?B) = Some (Raised e st')
        \<and> evaluations st' = [] \<and> eval_file st' = None"
    by (intro exI[of _ UnboundLocalError] exI[of _ "init_state ?S ?B"]) (simp add: init_state_def)
  have len: "length (evaluations (final_state out)) = 2"
    using run by (auto simp: scripted_two_cycles)
  from evaluation_history_append_only[of ?S ?A _ _ _ out, THEN conjunct2, THEN conjunct2, THEN mp, OF run]
    run len
  have 3: "\<exists>out. train_agent ?S ?A = Some out
        \<and> concat (map saved_history (trace (final_state out)))
            = [take 1 (evaluations (final_state out)), take 2 (evaluations (final_state out))]
        \<and> eval_file (final_state out) = Some (evaluations (final_state out))"
    by (intro exI[of _ out]) (auto simp: upt_rec numeral_2_eq_2)
  from 1 2 3 show ?thesis by (intro conjI)
qed

text \<open>
  C4. For positive \<^verbatim>\<open>num_epochs\<close>, \<^verbatim>\<open>num_steps_per_epoch\<close> and \<^verbatim>\<open>eval_freq\<close>, a
  recognized algorithm and evaluations that return, the run returns after exactly
  \<open>\<lceil>num_epochs / eval_freq\<rceil>\<close> passes. Pass \<open>k\<close> trains for
  \<^verbatim>\<open>eval_freq * num_steps_per_epoch\<close> iterations, logs the epoch \<open>k * eval_freq\<close>
  and evaluates once. The iterations trained in total exceed
  \<^verbatim>\<open>num_epochs * num_steps_per_epoch\<close> by at most
  \<^verbatim>\<open>(eval_freq - 1) * num_steps_per_epoch\<close>: by nothing when \<^verbatim>\<open>eval_freq\<close> divides
  \<^verbatim>\<open>num_epochs\<close>, by something otherwise. With the default arguments (500, 1000, 50)
  these are 10 passes of 50000 iterations, reported at the epochs 50, 100, ..., 500.
\<close>

theorem cycle_cadence:
  assumes "0 < num_epochs A" "0 < num_steps_per_epoch A" "0 < eval_freq A"
    and "algo A \<in> {''bc'', ''bc_mle'', ''bc_cvae'', ''bc_kl'', ''bc_mmd'', ''bc_w'', ''bc_gan'', ''bc_gan2''}"
    and "\<forall>g. eval_policy S g (env_name A) (seed A) (eval_episodes A) \<noteq> None"
  shows "\<exists>st. train_agent S A = Some (Returned st)
     \<and> filter (\<lambda>e. is_train e \<or> is_epoch e \<or> is_make e) (trace st)
         = concat (map (\<lambda>k. [Agent_Train (eval_freq A * num_steps_per_epoch A) (batch_size A),
                               Trained_Epochs (int k * eval_freq A),
                               Gym_Make (env_name A)])
                    [1..<Suc (nat \<lceil>real_of_int (num_epochs A) / real_of_int (eval_freq A)\<rceil>)])
     \<and> length (evaluations st) = nat \<lceil>real_of_int (num_epochs A) / real_of_int (eval_freq A)\<rceil>
     \<and> training_iters st
         = \<lceil>real_of_int (num_epochs A) / real_of_int (eval_freq A)\<rceil>
             * (eval_freq A * num_steps_per_epoch A)
     \<and> training_iters st - num_epochs A * num_steps_per_epoch A
         \<le> (eval_freq A - 1) * num_steps_per_epoch A
     \<and> (if eval_freq A dvd num_epochs A
         then training_iters st = num_epochs A * num_steps_per_epoch A
         else num_epochs A * num_steps_per_epoch A < training_iters st)"
proof -
  from assms(4) have bound: "select_agent (algo A) \<noteq> None"
    using select_agent_None[of "algo A"] by blast
  from run_shape[OF assms(2,3) bound assms(5)] obtain st n where
    run: "train_agent S A = Some (Returned st)"
    and ti: "training_iters st = int n * (eval_freq A * num_steps_per_epoch A)"
    and lo: "n = 0 \<or> (int n - 1) * eval_freq A < num_epochs A"
    and hi: "num_epochs A \<le> int n * eval_freq A"
    and len: "length (evaluations st) = n"
    and cad: "filter (\<lambda>e. is_train e \<or> is_epoch e \<or> is_make e) (trace st)
         = concat (map (\<lambda>k. [Agent_Train (eval_freq A * num_steps_per_epoch A) (batch_size A),
                               Trained_Epochs (int k * eval_freq A),
                               Gym_Make (env_name A)]) [1..<Suc n])"
    by blast
  from hi assms(1,3) have "n \<noteq> 0" by (cases "n = 0") auto
  with lo have lo': "(int n - 1) * eval_freq A < num_epochs A" by simp
  have c: "\<lceil>real_of_int (num_epochs A) / real_of_int (eval_freq A)\<rceil> = int n"
    using assms(3) lo' hi by (rule ceiling_passes)
  have over: "int n * eval_freq A - num_epochs A \<le> eval_freq A - 1"
    using lo' by (simp add: algebra_simps)
  have d: "training_iters st - num_epochs A * num_steps_per_epoch A
             = (int n * eval_freq A - num_epochs A) * num_steps_per_epoch A"
    by (simp add: ti algebra_simps)
  have o1: "training_iters st - num_epochs A * num_steps_per_epoch A
         \<le> (eval_freq A - 1) * num_steps_per_epoch A"
    unfolding d using over assms(2) by (intro mult_right_mono) simp_all
  have o2: "if eval_freq A dvd num_epochs A
         then training_iters st = num_epochs A * num_steps_per_epoch A
         else num_epochs A * num_steps_per_epoch A < training_iters st"
  proof (cases "eval_freq A dvd num_epochs A")
    case True
    then obtain q where q: "num_epochs A = eval_freq A * q" by (auto simp: dvd_def)
    from lo' hi assms(3) have "int n - 1 < q" "q \<le> int n"
      by (simp_all add: q mult.commute[of "eval_freq A"] mult_less_cancel_right mult_le_cancel_right)
    then have "q = int n" by simp
    with True show ?thesis by (simp add: ti q algebra_simps)
  next
    case False
    then have "num_epochs A \<noteq> int n * eval_freq A" by (metis dvd_triv_right)
    with hi have "num_epochs A < int n * eval_freq A" by simp
    then have "num_epochs A * num_steps_per_epoch A < (int n * eval_freq A) * num_steps_per_epoch A"
      using assms(2) by (simp add: mult_less_cancel_right)
    with False show ?thesis by (simp add: ti mult.assoc)
  qed
  show ?thesis
    using run cad len ti o1 o2 by (intro exI[of _ st]) (simp add: c)
qed

theorem cycle_cadence_witness:
  "0 < num_epochs default_args \<and> 0 < num_steps_per_epoch default_args
   \<and> 0 < eval_freq default_args
   \<and> (\<exists>st. train_agent (scripted_ops [Fin 3] (\<lambda>x. x)) default_args = Some (Returned st)
        \<and> filter (\<lambda>e. is_train e \<or> is_epoch e \<or> is_make e) (trace st)
            = [Agent_Train 50000 256, Trained_Epochs 50, Gym_Make ''walker2d-expert-v2'',
               Agent_Train 50000 256, Trained_Epochs 100, Gym_Make ''walker2d-expert-v2'',
               Agent_Train 50000 256, Trained_Epochs 150, Gym_Make ''walker2d-expert-v2'',
               Agent_Train 50000 256, Trained_Epochs 200, Gym_Make ''walker2d-expert-v2'',
               Agent_Train 50000 256, Trained_Epochs 250, Gym_Make ''walker2d-expert-v2'',
               Agent_Train 50000 256, Trained_Epochs 300, Gym_Make ''walker2d-expert-v2'',
               Agent_Train 50000 256, Trained_Epochs 350, Gym_Make ''walker2d-expert-v2'',
               Agent_Train 50000 256, Trained_Epochs 400, Gym_Make ''walker2d-expert-v2'',
               Agent_Train 50000 256, Trained_Epochs 450, Gym_Make ''walker2d-expert-v2'',
               Agent_Train 50000 256, Trained_Epochs 500, Gym_Make ''walker2d-expert-v2'']
        \<and> length (evaluations st) = 10
        \<and> training_iters st = 500000
        \<and> training_iters st = num_epochs default_args * num_steps_per_epoch default_args)"
proof -
  have c: "\<lceil>real_of_int 500 / real_of_int 50\<rceil> = (10 :: int)" by simp
  have u: "[Suc 0..<11] = [1, 2, 3, 4, 5, 6, 7, 8, 9, 10]"
    by (simp add: upt_rec)
  from cycle_cadence[of default_args "scripted_ops [Fin 3] (\<lambda>x. x)"]
  obtain st where "train_agent (scripted_ops [Fin 3] (\<lambda>x. x)) default_args = Some (Returned st)
        \<and> filter (\<lambda>e. is_train e \<or> is_epoch e \<or> is_make e) (trace st)
            = [Agent_Train 50000 256, Trained_Epochs 50, Gym_Make ''walker2d-expert-v2'',
               Agent_Train 50000 256, Trained_Epochs 100, Gym_Make ''walker2d-expert-v2'',
               Agent_Train 50000 256, Trained_Epochs 150, Gym_Make ''walker2d-expert-v2'',
               Agent_Train 50000 256, Trained_Epochs 200, Gym_Make ''walker2d-expert-v2'',
               Agent_Train 50000 256, Trained_Epochs 250, Gym_Make ''walker2d-expert-v2'',
               Agent_Train 50000 256, Trained_Epochs 300, Gym_Make ''walker2d-expert-v2'',
               Agent_Train 50000 256, Trained_Epochs 350, Gym_Make ''walker2d-expert-v2'',
               Agent_Train 50000 256, Trained_Epochs 400, Gym_Make ''walker2d-expert-v2'',
               Agent_Train 50000 256, Trained_Epochs 450, Gym_Make ''walker2d-expert-v2'',
               Agent_Train 50000 256, Trained_Epochs 500, Gym_Make ''walker2d-expert-v2'']
        \<and> length (evaluations st) = 10
        \<and> training_iters st = 500000"
    by (simp add: default_args_def scripted_eval c u) blast
  then show ?thesis
    by (intro conjI exI[of _ st]) (simp_all add: default_args_def)
qed

text \<open>
  C10. With \<^verbatim>\<open>num_steps_per_epoch >= 1\<close>, \<^verbatim>\<open>eval_freq >= 1\<close> and evaluations that
  return, the run ends; for a recognized algorithm it returns after exactly
  \<open>\<lceil>num_epochs / eval_freq\<rceil>\<close> passes through the body of the loop, and after none
  when \<^verbatim>\<open>num_epochs <= 0\<close>. With \<^verbatim>\<open>eval_freq * num_steps_per_epoch = 0\<close> and
  \<^verbatim>\<open>num_epochs * num_steps_per_epoch > 0\<close> the loop does not end: each pass returns and
  leaves \<^verbatim>\<open>training_iters\<close> at 0.
\<close>

theorem training_loop_termination:
  "(1 \<le> num_steps_per_epoch A \<and> 1 \<le> eval_freq A
      \<and> (\<forall>g. eval_policy S g (env_name A) (seed A) (eval_episodes A) \<noteq> None) \<longrightarrow>
      (\<exists>out. train_agent S A = Some out)
      \<and> (algo A \<in> {''bc'', ''bc_mle'', ''bc_cvae'', ''bc_kl'', ''bc_mmd'', ''bc_w'', ''bc_gan'', ''bc_gan2''} \<longrightarrow>
           (\<exists>st. train_agent S A = Some (Returned st)
              \<and> length (filter is_train (trace st))
                  = (if num_epochs A \<le> 0 then 0
                     else nat \<lceil>real_of_int (num_epochs A) / real_of_int (eval_freq A)\<rceil>))))
   \<and> (eval_freq A * num_steps_per_epoch A = 0 \<and> 0 < num_epochs A * num_steps_per_epoch A
      \<and> algo A \<in> {''bc'', ''bc_mle'', ''bc_cvae'', ''bc_kl'', ''bc_mmd'', ''bc_w'', ''bc_gan'', ''bc_gan2''}
      \<and> (\<forall>g. eval_policy S g (env_name A) (seed A) (eval_episodes A) \<noteq> None) \<longrightarrow>
      train_agent S A = None)"
proof (intro conjI impI)
  assume h: "1 \<le> num_steps_per_epoch A \<and> 1 \<le> eval_freq A
      \<and> (\<forall>g. eval_policy S g (env_name A) (seed A) (eval_episodes A) \<noteq> None)"
  then have nspe: "0 < num_steps_per_epoch A" and ef: "0 < eval_freq A"
    and total: "\<forall>g. eval_policy S g (env_name A) (seed A) (eval_episodes A) \<noteq> None"
    by auto
  show "\<exists>out. train_agent S A = Some out"
  proof (cases "select_agent (algo A)")
    case None
    then show ?thesis by (simp add: unbound_agent_run)
  next
    case (Some c)
    then have "select_agent (algo A) \<noteq> None" by simp
    from run_shape[OF nspe ef this total] show ?thesis by blast
  qed
  assume "algo A \<in> {''bc'', ''bc_mle'', ''bc_cvae'', ''bc_kl'', ''bc_mmd'', ''bc_w'', ''bc_gan'', ''bc_gan2''}"
  then have bound: "select_agent (algo A) \<noteq> None"
    using select_agent_None[of "algo A"] by blast
  from run_shape[OF nspe ef bound total] obtain st n where
    run: "train_agent S A = Some (Returned st)"
    and lo: "n = 0 \<or> (int n - 1) * eval_freq A < num_epochs A"
    and hi: "num_epochs A \<le> int n * eval_freq A"
    and cnt: "length (filter is_train (trace st)) = n"
    by blast
  have "n = (if num_epochs A \<le> 0 then 0
             else nat \<lceil>real_of_int (num_epochs A) / real_of_int (eval_freq A)\<rceil>)"
  proof (cases "num_epochs A \<le> 0")
    case True
    have "n = 0"
    proof (rule ccontr)
      assume "n \<noteq> 0"
      with lo have "(int n - 1) * eval_freq A < 0" using True by simp
      moreover have "0 \<le> (int n - 1) * eval_freq A" using \<open>n \<noteq> 0\<close> ef by simp
      ultimately show False by simp
    qed
    with True show ?thesis by simp
  next
    case False
    with hi ef have "n \<noteq> 0" by (cases "n = 0") auto
    with lo have "(int n - 1) * eval_freq A < num_epochs A" by simp
    from ceiling_passes[OF ef this hi] False show ?thesis by simp
  qed
  with run cnt show "\<exists>st. train_agent S A = Some (Returned st)
              \<and> length (filter is_train (trace st))
                  = (if num_epochs A \<le> 0 then 0
                     else nat \<lceil>real_of_int (num_epochs A) / real_of_int (eval_freq A)\<rceil>)"
    by blast
next
  assume h: "eval_freq A * num_steps_per_epoch A = 0 \<and> 0 < num_epochs A * num_steps_per_epoch A
      \<and> algo A \<in> {''bc'', ''bc_mle'', ''bc_cvae'', ''bc_kl'', ''bc_mmd'', ''bc_w'', ''bc_gan'', ''bc_gan2''}
      \<and> (\<forall>g. eval_policy S g (env_name A) (seed A) (eval_episodes A) \<noteq> None)"
  then have it: "eval_freq A * num_steps_per_epoch A = 0"
    and mx: "0 < num_epochs A * num_steps_per_epoch A"
    and total: "\<forall>g. eval_policy S g (env_name A) (seed A) (eval_episodes A) \<noteq> None"
    by auto
  from mx have n0: "num_steps_per_epoch A \<noteq> 0" by auto
  from h have bound: "select_agent (algo A) \<noteq> None"
    using select_agent_None[of "algo A"] by blast
  let ?I = "\<lambda>s::'a run_state. training_iters s = 0 \<and> agent s \<noteq> None"
  show "train_agent S A = None"
    unfolding train_agent_def
  proof (rule train_loop_diverges[where I = ?I])
    show "?I (init_state S A)" using bound by (simp add: init_state_def)
  next
    fix s assume I: "?I s"
    then obtain g where g: "agent s = Some g" by auto
    from cycle_total[OF g n0 total] obtain s' where c: "cycle S A s = Some (Returned s')" by blast
    from c have "?I s'" using I it by (elim cycle_Returned) simp
    with c I mx show "training_iters s < num_epochs A * num_steps_per_epoch A
                 \<and> (\<forall>out. cycle S A s = Some out \<longrightarrow> (\<exists>s'. out = Returned s' \<and> ?I s'))"
      by simp
  qed
qed


theorem training_loop_termination_witness:
  "(\<exists>st. train_agent (scripted_ops [Fin 3] (\<lambda>x. x)) (default_args\<lparr>num_epochs := 120\<rparr>)
           = Some (Returned st)
        \<and> length (filter is_train (trace st)) = 3)
   \<and> (\<exists>st. train_agent (scripted_ops [Fin 3] (\<lambda>x. x)) (default_args\<lparr>num_epochs := - 5\<rparr>)
           = Some (Returned st)
        \<and> length (filter is_train (trace st)) = 0)
   \<and> eval_freq (default_args\<lparr>eval_freq := 0\<rparr>) * num_steps_per_epoch (default_args\<lparr>eval_freq := 0\<rparr>) = 0
   \<and> 0 < num_epochs (default_args\<lparr>eval_freq := 0\<rparr>) * num_steps_per_epoch (default_args\<lparr>eval_freq := 0\<rparr>)
   \<and> train_agent (scripted_ops [Fin 3] (\<lambda>x. x)) (default_args\<lparr>eval_freq := 0\<rparr>) = None"
proof -
  let ?S = "scripted_ops [Fin 3] (\<lambda>x. x)"
  have c: "\<lceil>real_of_int 120 / real_of_int 50\<rceil> = (3 :: int)"
    by (rule ceiling_unique) simp_all
  have 1: "\<exists>st. train_agent ?S (default_args\<lparr>num_epochs := 120\<rparr>) = Some (Returned st)
        \<and> length (filter is_train (trace st)) = 3"
    using training_loop_termination[of "default_args\<lparr>num_epochs := 120\<rparr>" ?S, THEN conjunct1]
    by (simp add: default_args_def scripted_eval c)
  have 2: "\<exists>st. train_agent ?S (default_args\<lparr>num_epochs := - 5\<rparr>) = Some (Returned st)
        \<and> length (filter is_train (trace st)) = 0"
    using training_loop_termination[of "default_args\<lparr>num_epochs := - 5\<rparr>" ?S, THEN conjunct1]
    by (simp add: default_args_def scripted_eval)
  have 3: "train_agent ?S (default_args\<lparr>eval_freq := 0\<rparr>) = None"
    using training_loop_termination[of "default_args\<lparr>eval_freq := 0\<rparr>" ?S, THEN conjunct2]
    by (simp add: default_args_def scripted_eval)
  from 1 2 3 show ?thesis by (simp add: default_args_def)
qed

section \<open>The evaluator\<close>

text \<open>
  C3. What \<^verbatim>\<open>eval_policy\<close> returns are the mean and \<^verbatim>\<open>np.std\<close> of the episode
  returns, the normalizer applied once to the mean, and \<^verbatim>\<open>np.std\<close> of the normalized
  returns. On a non-empty list of numbers, with a normalizer \<open>f\<close> on numbers, these are
  the mean, the population standard deviation, \<open>f\<close> of the mean, and the population
  standard deviation of the list of the \<open>f r\<close>. For the returns 10, 20, 30 and
  \<open>f r = r / 100\<close>, an evaluation of 3 episodes returns 20, \<open>sqrt (200 / 3)\<close>
  (8.1649...), 0.2 and \<open>sqrt (200 / 3) / 100\<close> (0.08165 to five places). The normalized
  average is not the mean of the normalized returns: for \<open>f r = r\<^sup>2\<close> and the returns
  0 and 2 the first is 1 and the second 2.
\<close>

theorem evaluator_aggregation:
  "(eval_policy S g name sd n = Some (r, g', evs) \<longrightarrow>
      (\<exists>scores env'.
          run_episodes S (nat n) (env_seed S (sd + 100) (gym_make S name)) g []
            = Some (scores, env', g')
          \<and> r = (np_mean scores, np_std scores,
                 get_normalized_score S env' (np_mean scores),
                 np_std (map (get_normalized_score S env') scores))))
   \<and> (rs \<noteq> [] \<longrightarrow>
        aggregate (on_numbers f) (map Fin rs)
          = (Fin (mean rs), Fin (population_std rs),
             Fin (f (mean rs)), Fin (population_std (map f rs))))
   \<and> eval_policy (scripted_ops [Fin 10, Fin 20, Fin 30] (on_numbers (\<lambda>r. r / 100))) g0 name sd 3
       = Some ((Fin 20, Fin (sqrt (200 / 3)), Fin (1 / 5), Fin (sqrt (200 / 3) / 100)),
               g0, [Gym_Make name, Env_Seed (sd + 100)])
   \<and> 8.1649 < sqrt (200 / 3) \<and> sqrt (200 / 3) < 8.1650
   \<and> \<bar>sqrt (200 / 3) / 100 - 0.08165\<bar> < 0.00001
   \<and> norm_avg (aggregate (on_numbers (\<lambda>r. r\<^sup>2)) [Fin 0, Fin 2]) = Fin 1
   \<and> mean (map (\<lambda>r. r\<^sup>2) [0, 2]) = 2"
proof (intro conjI impI)
  assume "eval_policy S g name sd n = Some (r, g', evs)"
  then show "\<exists>scores env'.
          run_episodes S (nat n) (env_seed S (sd + 100) (gym_make S name)) g []
            = Some (scores, env', g')
          \<and> r = (np_mean scores, np_std scores,
                 get_normalized_score S env' (np_mean scores),
                 np_std (map (get_normalized_score S env') scores))"
    by (auto simp: eval_policy_def aggregate_def Let_def split: option.splits)
next
  assume ne: "rs \<noteq> []"
  have m: "map (on_numbers f) (map Fin rs) = map Fin (map f rs)" by simp
  show "aggregate (on_numbers f) (map Fin rs)
          = (Fin (mean rs), Fin (population_std rs),
             Fin (f (mean rs)), Fin (population_std (map f rs)))"
    using ne np_mean_Fin[of rs] np_std_Fin[of rs] np_std_Fin[of "map f rs"]
    unfolding aggregate_def Let_def m by simp
next
  have sc: "scripted_returns 3 [Fin 10, Fin 20, Fin 30] = map Fin [10, 20, 30]"
    by (simp add: numeral_3_eq_3)
  have ag: "aggregate (on_numbers (\<lambda>r. r / 100)) (map Fin [10, 20, 30])
     = (Fin 20, Fin (sqrt (200 / 3)), Fin (1 / 5), Fin (sqrt (200 / 3) / 100))"
  proof -
    have "(200 / 3 :: real) / 10000 = (200 / 3) / 100\<^sup>2" by simp
    have s: "sqrt (1 / 150 :: real) = sqrt (200 / 3) / 100"
    proof -
      have "sqrt (200 / 3 :: real) / 100 = sqrt (200 / 3) / sqrt (100\<^sup>2)" by simp
      also have "\<dots> = sqrt ((200 / 3) / 100\<^sup>2)" by (simp only: real_sqrt_divide)
      also have "(200 / 3 :: real) / 100\<^sup>2 = 1 / 150" by simp
      finally show ?thesis by simp
    qed
    have p1: "population_std [10, 20, 30] = sqrt (200 / 3)"
      by (simp add: population_std_def mean_def)
    have p2: "population_std (map (\<lambda>r. r / 100) [10, 20, 30]) = sqrt (1 / 150)"
      by (simp add: population_std_def mean_def power2_eq_square)
    have "aggregate (on_numbers (\<lambda>r. r / 100)) (map Fin [10, 20, 30])
       = (Fin (mean [10, 20, 30]), Fin (population_std [10, 20, 30]),
             Fin (mean [10, 20, 30] / 100), Fin (population_std (map (\<lambda>r. r / 100) [10, 20, 30])))"
      unfolding aggregate_def Let_def
      by (simp only: np_mean_Fin np_std_Fin list.map(2) on_numbers.simps list.distinct
            list.map(1) map_map comp_def simp_thms)
         (simp add: np_mean_def np_std_def mean_def population_std_def)
    then show ?thesis by (simp add: p1 p2 s mean_def del: list.map)
  qed
  show "eval_policy (scripted_ops [Fin 10, Fin 20, Fin 30] (on_numbers (\<lambda>r. r / 100))) g0 name sd 3
       = Some ((Fin 20, Fin (sqrt (200 / 3)), Fin (1 / 5), Fin (sqrt (200 / 3) / 100)),
               g0, [Gym_Make name, Env_Seed (sd + 100)])"
    by (simp only: scripted_eval nat_numeral sc ag)
next
  show "8.1649 < sqrt (200 / 3)" "sqrt (200 / 3) < 8.1650" by (rule sqrt_200_3)+
  from sqrt_200_3 show "\<bar>sqrt (200 / 3) / 100 - 0.08165\<bar> < 0.00001" by simp
  show "norm_avg (aggregate (on_numbers (\<lambda>r. r\<^sup>2)) [Fin 0, Fin 2]) = Fin 1"
    by (simp add: norm_avg_def aggregate_def np_mean_def Let_def)
  show "mean (map (\<lambda>r. r\<^sup>2) [0, 2]) = 2" by (simp add: mean_def)
qed


theorem evaluator_aggregation_witness:
  "[1, 2, 3, 4] \<noteq> ([] :: real list)
   \<and> aggregate (on_numbers (\<lambda>r. 2 * r + 1)) (map Fin [1, 2, 3, 4])
       = (Fin (5 / 2), Fin (sqrt (5 / 4)), Fin 6, Fin (sqrt 5))
   \<and> (\<exists>r g' evs.
         eval_policy (scripted_ops [Fin 4, Fin 8] (on_numbers (\<lambda>r. r / 4))) 0 ''hopper-medium-v2'' 1 2
           = Some (r, g', evs)
         \<and> r = (Fin 6, Fin 2, Fin (3 / 2), Fin (1 / 2)))"
proof -
  let ?S = "scripted_ops [Fin 4, Fin 8] (on_numbers (\<lambda>r. r / 4))"
  obtain r g' evs where ev: "eval_policy ?S 0 ''hopper-medium-v2'' 1 2 = Some (r, g', evs)"
    by (simp add: scripted_eval)
  note t = evaluator_aggregation[of ?S 0 "''hopper-medium-v2''" 1 2 r g' evs
              "[1, 2, 3, 4]" "\<lambda>r. 2 * r + 1"]
  from t[THEN conjunct1, THEN mp, OF ev] obtain scores env' where
    sc: "run_episodes ?S (nat 2) (env_seed ?S (1 + 100) (gym_make ?S ''hopper-medium-v2'')) 0 []
           = Some (scores, env', g')"
    and r: "r = (np_mean scores, np_std scores,
                 get_normalized_score ?S env' (np_mean scores),
                 np_std (map (get_normalized_score ?S env') scores))"
    by blast
  from sc have "scores = [Fin 4, Fin 8]"
    by (simp only: scripted_episodes) (auto simp: scripted_ops_fields numeral_2_eq_2)
  moreover have "sqrt (1 / 4 :: real) = 1 / 2" by (simp add: real_sqrt_divide)
  ultimately have "r = (Fin 6, Fin 2, Fin (3 / 2), Fin (1 / 2))"
    using r by (simp add: scripted_ops_fields np_mean_def np_std_def power2_eq_square)
  with ev have 1: "\<exists>r g' evs. eval_policy ?S 0 ''hopper-medium-v2'' 1 2 = Some (r, g', evs)
         \<and> r = (Fin 6, Fin 2, Fin (3 / 2), Fin (1 / 2))" by blast
  have ne: "[1, 2, 3, 4] \<noteq> ([] :: real list)" by simp
  from t[THEN conjunct2, THEN conjunct1, THEN mp, OF ne]
  have 2: "aggregate (on_numbers (\<lambda>r. 2 * r + 1)) (map Fin [1, 2, 3, 4])
       = (Fin (5 / 2), Fin (sqrt (5 / 4)), Fin 6, Fin (sqrt 5))"
    by (simp add: mean_def population_std_def power2_eq_square)
  from ne 1 2 show ?thesis by (intro conjI)
qed

end
